theory Spec2Isabelle
  imports Complex_Main "HOL-Library.List_Lexorder" "HOL-Library.Char_ord"
begin

section \<open>Conventions of the embedding\<close>

text \<open>
  The point functions of \<^verbatim>\<open>tests/test_forage.py\<close> compute on Python floats. They are
  embedded over the reals: every arithmetic operation is the exact one, so rounding,
  overflow to infinity and NaN are outside the model. What Python does beyond
  arithmetic is kept: the division of two Python floats raises \<^verbatim>\<open>ZeroDivisionError\<close>
  when the divisor is zero, and every such division of the source is a branch of the
  model that returns the error.
\<close>

datatype py_error =
    ZeroDivisionError
  | KeyError string
  | AttributeError
  | TypeError
  | ValueError
  | RuntimeError string

text \<open>Sequencing of computations that may raise: the first error is the result.\<close>

definition bindE :: "py_error + 'a \<Rightarrow> ('a \<Rightarrow> py_error + 'b) \<Rightarrow> py_error + 'b" where
  "bindE m f = (case m of Inl e \<Rightarrow> Inl e | Inr x \<Rightarrow> f x)"

text \<open>\<^verbatim>\<open>a / b\<close> on Python floats.\<close>

definition py_div :: "real \<Rightarrow> real \<Rightarrow> py_error + real" where
  "py_div a b = (if b = 0 then Inl ZeroDivisionError else Inr (a / b))"

section \<open>Element scheduling: \<^verbatim>\<open>esched_point\<close>\<close>

text \<open>
  \<^verbatim>\<open>esched_point(return_type)\<close> returns the closure \<^verbatim>\<open>_esched\<close>, which computes the three
  flows and returns the one that \<^verbatim>\<open>return_type\<close> names. \<open>esched\<close> is the body of
  \<^verbatim>\<open>_esched\<close> up to the selection, with the three local variables as a record.
\<close>

record esched_flows =
  material_leaving_a :: real
  material_arriving_b :: real
  mnrflo :: real

definition esched :: "real \<Rightarrow> real \<Rightarrow> real \<Rightarrow> real \<Rightarrow> real \<Rightarrow> py_error + esched_flows" where
  "esched cflow tca rcetob anps labile =
     bindE (py_div cflow tca) (\<lambda>q.
     let outofa = anps * q in
     bindE (py_div cflow outofa) (\<lambda>ratio.
     if ratio > rcetob then
       bindE (py_div cflow rcetob) (\<lambda>q2.
       let immflo = q2 - outofa in
       if labile - immflo > 0 then
         Inr \<lparr>material_leaving_a = outofa,
              material_arriving_b = outofa + immflo,
              mnrflo = - immflo\<rparr>
       else
         Inr \<lparr>material_leaving_a = 0, material_arriving_b = 0, mnrflo = 0\<rparr>)
     else
       bindE (py_div cflow rcetob) (\<lambda>atob.
       Inr \<lparr>material_leaving_a = outofa,
            material_arriving_b = atob,
            mnrflo = outofa - atob\<rparr>)))"

text \<open>
  The selection by \<^verbatim>\<open>return_type\<close>. A string that is none of the three names falls
  through the \<^verbatim>\<open>if/elif\<close> chain and the Python function returns \<^verbatim>\<open>None\<close>.
\<close>

definition esched_point ::
  "string \<Rightarrow> real \<Rightarrow> real \<Rightarrow> real \<Rightarrow> real \<Rightarrow> real \<Rightarrow> py_error + real option" where
  "esched_point return_type cflow tca rcetob anps labile =
     bindE (esched cflow tca rcetob anps labile) (\<lambda>r.
       if return_type = ''material_leaving_a'' then Inr (Some (material_leaving_a r))
       else if return_type = ''material_arriving_b'' then Inr (Some (material_arriving_b r))
       else if return_type = ''mineral_flow'' then Inr (Some (mnrflo r))
       else Inr None)"

text \<open>The conditions that \<^verbatim>\<open>_esched\<close> branches on, as functions of its arguments.\<close>

definition esched_outofa :: "real \<Rightarrow> real \<Rightarrow> real \<Rightarrow> real" where
  "esched_outofa cflow tca anps = anps * (cflow / tca)"

definition esched_immflo :: "real \<Rightarrow> real \<Rightarrow> real \<Rightarrow> real \<Rightarrow> real" where
  "esched_immflo cflow tca rcetob anps = cflow / rcetob - esched_outofa cflow tca anps"

subsection \<open>\<^verbatim>\<open>_esched\<close> over an arbitrary arithmetic\<close>

text \<open>
  Which inputs make \<^verbatim>\<open>_esched\<close> raise depends on the arithmetic: the divisor
  \<^verbatim>\<open>outofa = anps * (cflow/tca)\<close> is a rounded product, which on floats is zero also
  when an exact product is not (underflow) and is a NaN, not zero, when \<open>anps = 0\<close>
  meets a quotient that overflowed. For statements about raising, \<^verbatim>\<open>_esched\<close> is
  therefore also embedded over any number type with any multiplication, quotient,
  sum, difference, negation and comparison. Only what Python fixes is kept:
  \<^verbatim>\<open>a / b\<close> raises \<^verbatim>\<open>ZeroDivisionError\<close> exactly when \<^verbatim>\<open>b == 0\<close> and otherwise returns
  a value (possibly an infinity or a NaN), and nothing else raises.
\<close>

record 'a arith =
  fmul :: "'a \<Rightarrow> 'a \<Rightarrow> 'a"
  fquot :: "'a \<Rightarrow> 'a \<Rightarrow> 'a"
  fadd :: "'a \<Rightarrow> 'a \<Rightarrow> 'a"
  fsub :: "'a \<Rightarrow> 'a \<Rightarrow> 'a"
  fneg :: "'a \<Rightarrow> 'a"
  fzero :: 'a
  is_zero :: "'a \<Rightarrow> bool"
  fgt :: "'a \<Rightarrow> 'a \<Rightarrow> bool"

definition arith_div :: "'a arith \<Rightarrow> 'a \<Rightarrow> 'a \<Rightarrow> py_error + 'a" where
  "arith_div A a b = (if is_zero A b then Inl ZeroDivisionError else Inr (fquot A a b))"

text \<open>
  The body of \<^verbatim>\<open>_esched\<close> as in \<open>esched\<close>, with the operations of \<open>A\<close>; the result is
  the triple \<^verbatim>\<open>(material_leaving_a, material_arriving_b, mnrflo)\<close>.
\<close>

definition esched_arith ::
  "'a arith \<Rightarrow> 'a \<Rightarrow> 'a \<Rightarrow> 'a \<Rightarrow> 'a \<Rightarrow> 'a \<Rightarrow> py_error + 'a \<times> 'a \<times> 'a" where
  "esched_arith A cflow tca rcetob anps labile =
     bindE (arith_div A cflow tca) (\<lambda>q.
     let outofa = fmul A anps q in
     bindE (arith_div A cflow outofa) (\<lambda>ratio.
     if fgt A ratio rcetob then
       bindE (arith_div A cflow rcetob) (\<lambda>q2.
       let immflo = fsub A q2 outofa in
       if fgt A (fsub A labile immflo) (fzero A) then
         Inr (outofa, fadd A outofa immflo, fneg A immflo)
       else
         Inr (fzero A, fzero A, fzero A))
     else
       bindE (arith_div A cflow rcetob) (\<lambda>atob.
       Inr (outofa, atob, fsub A outofa atob))))"

text \<open>The exact arithmetic of the reals, the one of \<open>esched\<close>.\<close>

definition real_arith :: "real arith" where
  "real_arith =
     \<lparr>fmul = (\<lambda>x y. x * y), fquot = (\<lambda>x y. x / y), fadd = (\<lambda>x y. x + y),
      fsub = (\<lambda>x y. x - y), fneg = (\<lambda>x. - x), fzero = 0,
      is_zero = (\<lambda>x. x = 0), fgt = (\<lambda>x y. x > y)\<rparr>"

text \<open>
  An arithmetic that rounds as floats do at the small end: a product smaller in
  magnitude than \<open>10\<^sup>-\<^sup>3\<^sup>2\<^sup>4\<close>, which is below the least positive double, is zero.
\<close>

definition underflow_arith :: "real arith" where
  "underflow_arith =
     real_arith\<lparr>fmul := (\<lambda>x y. if \<bar>x * y\<bar> < 1 / 10 ^ 324 then 0 else x * y)\<rparr>"

section \<open>Lignin-gated structural decomposition: \<^verbatim>\<open>declig_point\<close>\<close>

text \<open>
  The twelve local variables \<^verbatim>\<open>d_...\<close> of \<^verbatim>\<open>_declig\<close>, the changes in the state
  variables, all initialised to zero.
\<close>

record declig_deltas =
  d_strucc_lyr :: real
  d_struce_lyr_1 :: real
  d_struce_lyr_2 :: real
  d_minerl_1_1 :: real
  d_minerl_1_2 :: real
  d_gromin_1 :: real
  d_som2c_lyr :: real
  d_som2e_lyr_1 :: real
  d_som2e_lyr_2 :: real
  d_som1c_lyr :: real
  d_som1e_lyr_1 :: real
  d_som1e_lyr_2 :: real

definition no_change :: declig_deltas where
  "no_change =
     \<lparr>d_strucc_lyr = 0, d_struce_lyr_1 = 0, d_struce_lyr_2 = 0, d_minerl_1_1 = 0,
      d_minerl_1_2 = 0, d_gromin_1 = 0, d_som2c_lyr = 0, d_som2e_lyr_1 = 0,
      d_som2e_lyr_2 = 0, d_som1c_lyr = 0, d_som1e_lyr_1 = 0, d_som1e_lyr_2 = 0\<rparr>"

text \<open>
  \<^verbatim>\<open>decompose_mask\<close>. The operators \<^verbatim>\<open>|\<close> and \<^verbatim>\<open>&\<close> on Python booleans evaluate both
  operands, so both quotients are computed, in this order, whatever \<^verbatim>\<open>aminrl\<close> is.
\<close>

definition decompose_mask ::
  "real \<Rightarrow> real \<Rightarrow> real \<Rightarrow> real \<Rightarrow> real \<Rightarrow> real \<Rightarrow> real \<Rightarrow> py_error + bool" where
  "decompose_mask aminrl_1 aminrl_2 strucc_lyr struce_lyr_1 struce_lyr_2
       rnew_lyr_1_1 rnew_lyr_2_1 =
     bindE (py_div strucc_lyr struce_lyr_1) (\<lambda>ratio_1.
     bindE (py_div strucc_lyr struce_lyr_2) (\<lambda>ratio_2.
     Inr ((aminrl_1 > 0.0000001 \<or> ratio_1 \<le> rnew_lyr_1_1) \<and>
          (aminrl_2 > 0.0000001 \<or> ratio_2 \<le> rnew_lyr_2_1))))"

text \<open>
  The blocks of assignments in the body of \<^verbatim>\<open>_declig\<close>, each as a function on the
  record of deltas. The first is the respiration block, which the source has twice with
  the same text (for the flow to SOM2 and for the flow to SOM1): the mineral flows that
  accompany the loss \<^verbatim>\<open>co2los\<close> leave the structural pool for the mineral pool, and
  gross N mineralization counts the N flow only when it is positive.
\<close>

definition respiration_flows ::
  "declig_deltas \<Rightarrow> real \<Rightarrow> real \<Rightarrow> real \<Rightarrow> real \<Rightarrow> py_error + declig_deltas" where
  "respiration_flows d co2los strucc_lyr struce_lyr_1 struce_lyr_2 =
     bindE (py_div (co2los * struce_lyr_1) strucc_lyr) (\<lambda>mnrflo_1.
     let d = d\<lparr>d_struce_lyr_1 := d_struce_lyr_1 d - mnrflo_1,
               d_minerl_1_1 := d_minerl_1_1 d + mnrflo_1\<rparr>;
         d = (if mnrflo_1 > 0 then d\<lparr>d_gromin_1 := d_gromin_1 d + mnrflo_1\<rparr> else d) in
     bindE (py_div (co2los * struce_lyr_2) strucc_lyr) (\<lambda>mnrflo_2.
     Inr (d\<lparr>d_struce_lyr_2 := d_struce_lyr_2 d - mnrflo_2,
              d_minerl_1_2 := d_minerl_1_2 d + mnrflo_2\<rparr>)))"

text \<open>
  The four "schedule flows" blocks. The three calls of \<^verbatim>\<open>esched_point\<close> before each
  block have the same arguments: they are one evaluation of \<open>esched\<close>, whose three
  fields they return, here the argument \<open>fl\<close>.
\<close>

definition schedule_som2_N :: "declig_deltas \<Rightarrow> esched_flows \<Rightarrow> declig_deltas" where
  "schedule_som2_N d fl =
     (let d = d\<lparr>d_struce_lyr_1 := d_struce_lyr_1 d - material_leaving_a fl,
                d_som2e_lyr_1 := d_som2e_lyr_1 d + material_arriving_b fl,
                d_minerl_1_1 := d_minerl_1_1 d + mnrflo fl\<rparr>
      in if mnrflo fl > 0 then d\<lparr>d_gromin_1 := d_gromin_1 d + mnrflo fl\<rparr> else d)"

definition schedule_som2_P :: "declig_deltas \<Rightarrow> esched_flows \<Rightarrow> declig_deltas" where
  "schedule_som2_P d fl =
     d\<lparr>d_struce_lyr_2 := d_struce_lyr_2 d - material_leaving_a fl,
       d_som2e_lyr_2 := d_som2e_lyr_2 d + material_arriving_b fl,
       d_minerl_1_2 := d_minerl_1_2 d + mnrflo fl\<rparr>"

definition schedule_som1_N :: "declig_deltas \<Rightarrow> esched_flows \<Rightarrow> declig_deltas" where
  "schedule_som1_N d fl =
     (let d = d\<lparr>d_struce_lyr_1 := d_struce_lyr_1 d - material_leaving_a fl,
                d_som1e_lyr_1 := d_som1e_lyr_1 d + material_arriving_b fl,
                d_minerl_1_1 := d_minerl_1_1 d + mnrflo fl\<rparr>
      in if mnrflo fl > 0 then d\<lparr>d_gromin_1 := d_gromin_1 d + mnrflo fl\<rparr> else d)"

definition schedule_som1_P :: "declig_deltas \<Rightarrow> esched_flows \<Rightarrow> declig_deltas" where
  "schedule_som1_P d fl =
     d\<lparr>d_struce_lyr_2 := d_struce_lyr_2 d - material_leaving_a fl,
       d_som1e_lyr_2 := d_som1e_lyr_2 d + material_arriving_b fl,
       d_minerl_1_2 := d_minerl_1_2 d + mnrflo fl\<rparr>"

text \<open>
  The body of \<^verbatim>\<open>_declig\<close> up to the selection by \<^verbatim>\<open>return_type\<close>: the blocks in the
  order of the source.
\<close>

definition declig ::
  "real \<Rightarrow> real \<Rightarrow> real \<Rightarrow> real \<Rightarrow> real \<Rightarrow> real \<Rightarrow> real \<Rightarrow> real \<Rightarrow> real \<Rightarrow>
   real \<Rightarrow> real \<Rightarrow> real \<Rightarrow> real \<Rightarrow> real \<Rightarrow> real \<Rightarrow> py_error + declig_deltas" where
  "declig aminrl_1 aminrl_2 ligcon rsplig ps1co2_lyr strucc_lyr tcflow
       struce_lyr_1 struce_lyr_2 rnew_lyr_1_1 rnew_lyr_2_1 rnew_lyr_1_2 rnew_lyr_2_2
       minerl_1_1 minerl_1_2 =
     bindE (decompose_mask aminrl_1 aminrl_2 strucc_lyr struce_lyr_1 struce_lyr_2
              rnew_lyr_1_1 rnew_lyr_2_1) (\<lambda>mask.
     if \<not> mask then Inr no_change
     else
       let d = no_change\<lparr>d_strucc_lyr := - tcflow\<rparr>;
           tosom2 = tcflow * ligcon;
           co2los = tosom2 * rsplig in
       bindE (respiration_flows d co2los strucc_lyr struce_lyr_1 struce_lyr_2) (\<lambda>d.
       let net_tosom2 = tosom2 - co2los;
           d = d\<lparr>d_som2c_lyr := d_som2c_lyr d + net_tosom2\<rparr> in
       bindE (esched net_tosom2 strucc_lyr rnew_lyr_1_2 struce_lyr_1 minerl_1_1) (\<lambda>n2.
       let d = schedule_som2_N d n2 in
       bindE (esched net_tosom2 strucc_lyr rnew_lyr_2_2 struce_lyr_2 minerl_1_2) (\<lambda>p2.
       let d = schedule_som2_P d p2;
           tosom1 = tcflow - tosom2;
           co2los = tosom1 * ps1co2_lyr in
       bindE (respiration_flows d co2los strucc_lyr struce_lyr_1 struce_lyr_2) (\<lambda>d.
       let net_tosom1 = tosom1 - co2los;
           d = d\<lparr>d_som1c_lyr := d_som1c_lyr d + net_tosom1\<rparr> in
       bindE (esched net_tosom1 strucc_lyr rnew_lyr_1_1 struce_lyr_1 minerl_1_1) (\<lambda>n1.
       let d = schedule_som1_N d n1 in
       bindE (esched net_tosom1 strucc_lyr rnew_lyr_2_1 struce_lyr_2 minerl_1_2) (\<lambda>p1.
       Inr (schedule_som1_P d p1))))))))"

text \<open>
  The selection by \<^verbatim>\<open>return_type\<close>; as in \<open>esched_point\<close>, an unknown name gives
  Python's \<^verbatim>\<open>None\<close>.
\<close>

definition declig_select :: "string \<Rightarrow> declig_deltas \<Rightarrow> real option" where
  "declig_select return_type d =
     (if return_type = ''d_strucc'' then Some (d_strucc_lyr d)
      else if return_type = ''d_struce_1'' then Some (d_struce_lyr_1 d)
      else if return_type = ''d_struce_2'' then Some (d_struce_lyr_2 d)
      else if return_type = ''d_minerl_1_1'' then Some (d_minerl_1_1 d)
      else if return_type = ''d_minerl_1_2'' then Some (d_minerl_1_2 d)
      else if return_type = ''d_gromin_1'' then Some (d_gromin_1 d)
      else if return_type = ''d_som2c'' then Some (d_som2c_lyr d)
      else if return_type = ''d_som2e_1'' then Some (d_som2e_lyr_1 d)
      else if return_type = ''d_som2e_2'' then Some (d_som2e_lyr_2 d)
      else if return_type = ''d_som1c'' then Some (d_som1c_lyr d)
      else if return_type = ''d_som1e_1'' then Some (d_som1e_lyr_1 d)
      else if return_type = ''d_som1e_2'' then Some (d_som1e_lyr_2 d)
      else None)"

definition declig_point ::
  "string \<Rightarrow> real \<Rightarrow> real \<Rightarrow> real \<Rightarrow> real \<Rightarrow> real \<Rightarrow> real \<Rightarrow> real \<Rightarrow> real \<Rightarrow> real \<Rightarrow>
   real \<Rightarrow> real \<Rightarrow> real \<Rightarrow> real \<Rightarrow> real \<Rightarrow> real \<Rightarrow> py_error + real option" where
  "declig_point return_type aminrl_1 aminrl_2 ligcon rsplig ps1co2_lyr strucc_lyr tcflow
       struce_lyr_1 struce_lyr_2 rnew_lyr_1_1 rnew_lyr_2_1 rnew_lyr_1_2 rnew_lyr_2_2
       minerl_1_1 minerl_1_2 =
     bindE (declig aminrl_1 aminrl_2 ligcon rsplig ps1co2_lyr strucc_lyr tcflow
              struce_lyr_1 struce_lyr_2 rnew_lyr_1_1 rnew_lyr_2_1 rnew_lyr_1_2 rnew_lyr_2_2
              minerl_1_1 minerl_1_2)
       (\<lambda>d. Inr (declig_select return_type d))"

text \<open>The twelve names that \<^verbatim>\<open>return_type\<close> can take.\<close>

definition declig_return_types :: "string list" where
  "declig_return_types =
     [''d_strucc'', ''d_struce_1'', ''d_struce_2'', ''d_minerl_1_1'', ''d_minerl_1_2'',
      ''d_gromin_1'', ''d_som2c'', ''d_som2e_1'', ''d_som2e_2'', ''d_som1c'',
      ''d_som1e_1'', ''d_som1e_2'']"

section \<open>Nutrient limitation: \<^verbatim>\<open>calc_nutrient_limitation_point\<close>\<close>

text \<open>The dictionary that the function returns, one field for each key.\<close>

record nutrient_limitation =
  c_production :: real
  eup_above_1 :: real
  eup_below_1 :: real
  eup_above_2 :: real
  eup_below_2 :: real
  plantNfix :: real

text \<open>
  The E/C ratios of new production "according to demand and supply". The source has
  this \<^verbatim>\<open>if/else\<close> twice, for N and for P; the result is the pair
  \<^verbatim>\<open>(ecfor_above, ecfor_below)\<close>. In \<^verbatim>\<open>(maxeci - mineci) * eavail / demand\<close> the product
  is divided by \<^verbatim>\<open>demand\<close>.
\<close>

definition ecfor_supply_demand ::
  "real \<Rightarrow> real \<Rightarrow> real \<Rightarrow> real \<Rightarrow> real \<Rightarrow> real \<Rightarrow> py_error + real \<times> real" where
  "ecfor_supply_demand eavail demand maxeci_above mineci_above maxeci_below mineci_below =
     (if eavail > demand then Inr (maxeci_above, maxeci_below)
      else
        bindE (py_div ((maxeci_above - mineci_above) * eavail) demand) (\<lambda>qa.
        bindE (py_div ((maxeci_below - mineci_below) * eavail) demand) (\<lambda>qb.
        Inr (mineci_above + qa, mineci_below + qb))))"

text \<open>
  The local variable \<^verbatim>\<open>eprodl_1\<close> after the assignment under "prevent precision
  error": total N in new production, reset to supply plus maximum fixation when it
  exceeds them by more than \<open>0.05\<close>.
\<close>

definition capped_eprodl_1 :: "real \<Rightarrow> real \<Rightarrow> real \<Rightarrow> real" where
  "capped_eprodl_1 eprodl_1 eavail_1 maxNfix =
     (if eprodl_1 - (eavail_1 + maxNfix) > 0.05 then eavail_1 + maxNfix else eprodl_1)"

text \<open>
  The last part of the function, from "C production limited by nutrient availability"
  to the result dictionary, as a function of the values computed before it.
\<close>

definition limited_production ::
  "real \<Rightarrow> real \<Rightarrow> real \<Rightarrow> real \<Rightarrow> real \<Rightarrow> real \<Rightarrow> real \<Rightarrow> real \<Rightarrow> real \<Rightarrow> real \<Rightarrow>
   real \<Rightarrow> nutrient_limitation" where
  "limited_production potenc eavail_1 snfxmx_1 cfrac_below cfrac_above
       ecfor_above_1 ecfor_below_1 ecfor_above_2 ecfor_below_2
       c_constrained_1 c_constrained_2 =
     (let cprodl = min potenc (min c_constrained_1 c_constrained_2);
          eup_above_1 = cprodl * cfrac_above * ecfor_above_1;
          eup_below_1 = cprodl * cfrac_below * ecfor_below_1;
          eprodl_1 = eup_above_1 + eup_below_1;
          eup_above_2 = cprodl * cfrac_above * ecfor_above_2;
          eup_below_2 = cprodl * cfrac_below * ecfor_below_2;
          maxNfix = snfxmx_1 * cprodl;
          eprodl_1 = capped_eprodl_1 eprodl_1 eavail_1 maxNfix;
          plantNfix = max (eprodl_1 - eavail_1) 0
      in \<lparr>c_production = cprodl,
          eup_above_1 = eup_above_1,
          eup_below_1 = eup_below_1,
          eup_above_2 = eup_above_2,
          eup_below_2 = eup_below_2,
          plantNfix = plantNfix\<rparr>)"

definition calc_nutrient_limitation_point ::
  "real \<Rightarrow> real \<Rightarrow> real \<Rightarrow> real \<Rightarrow> real \<Rightarrow> real \<Rightarrow> real \<Rightarrow> real \<Rightarrow> real \<Rightarrow>
   real \<Rightarrow> real \<Rightarrow> real \<Rightarrow> real \<Rightarrow> py_error + nutrient_limitation" where
  "calc_nutrient_limitation_point potenc rtsh eavail_1 eavail_2 snfxmx_1
       cerat_max_above_1 cerat_max_below_1 cerat_max_above_2 cerat_max_below_2
       cerat_min_above_1 cerat_min_below_1 cerat_min_above_2 cerat_min_below_2 =
     bindE (py_div rtsh (rtsh + 1)) (\<lambda>cfrac_below.
     let cfrac_above = 1 - cfrac_below in
     bindE (py_div 1 cerat_min_above_1) (\<lambda>maxeci_above_1.
     bindE (py_div 1 cerat_max_above_1) (\<lambda>mineci_above_1.
     bindE (py_div 1 cerat_min_below_1) (\<lambda>maxeci_below_1.
     bindE (py_div 1 cerat_max_below_1) (\<lambda>mineci_below_1.
     bindE (py_div 1 cerat_min_above_2) (\<lambda>maxeci_above_2.
     bindE (py_div 1 cerat_max_above_2) (\<lambda>mineci_above_2.
     bindE (py_div 1 cerat_min_below_2) (\<lambda>maxeci_below_2.
     bindE (py_div 1 cerat_max_below_2) (\<lambda>mineci_below_2.
     let maxec_1 = cfrac_below * maxeci_below_1 + cfrac_above * maxeci_above_1;
         maxec_2 = cfrac_below * maxeci_below_2 + cfrac_above * maxeci_above_2;
         demand_1 = potenc * maxec_1 in
     bindE (ecfor_supply_demand eavail_1 demand_1
              maxeci_above_1 mineci_above_1 maxeci_below_1 mineci_below_1)
       (\<lambda>ecfor_1.
     let ecfor_above_1 = fst ecfor_1;
         ecfor_below_1 = snd ecfor_1;
         cpbe_1 = cfrac_below * ecfor_below_1 + cfrac_above * ecfor_above_1 in
     bindE (py_div eavail_1 cpbe_1) (\<lambda>c_constrained_1.
     let demand_2 = potenc * maxec_2 in
     bindE (ecfor_supply_demand eavail_2 demand_2
              maxeci_above_2 mineci_above_2 maxeci_below_2 mineci_below_2)
       (\<lambda>ecfor_2.
     let ecfor_above_2 = fst ecfor_2;
         ecfor_below_2 = snd ecfor_2;
         cpbe_2 = cfrac_below * ecfor_below_2 + cfrac_above * ecfor_above_2 in
     bindE (py_div eavail_2 cpbe_2) (\<lambda>c_constrained_2.
     Inr (limited_production potenc eavail_1 snfxmx_1 cfrac_below cfrac_above
            ecfor_above_1 ecfor_below_1 ecfor_above_2 ecfor_below_2
            c_constrained_1 c_constrained_2))))))))))))))"

text \<open>
  The claim's description of \<^verbatim>\<open>cpbe\<close>, written from its words and not from the code:
  the element/carbon ratio of new production, a blend of the belowground and the
  aboveground ratio weighted by the carbon fractions \<open>rtsh / (rtsh + 1)\<close> and its
  complement, where each ratio is the maximum E/C ratio (one over the minimum C/E
  ratio) when supply exceeds demand, and otherwise lies between the minimum and the
  maximum E/C ratio in the proportion of supply to demand.
\<close>

definition cpbe_spec :: "real \<Rightarrow> real \<Rightarrow> real \<Rightarrow> real \<Rightarrow> real \<Rightarrow> real \<Rightarrow> real \<Rightarrow> real" where
  "cpbe_spec potenc rtsh eavail cerat_max_above cerat_max_below cerat_min_above cerat_min_below =
     (let below = rtsh / (rtsh + 1);
          above = 1 - below;
          demand = potenc * (below * (1 / cerat_min_below) + above * (1 / cerat_min_above));
          blend = (\<lambda>cerat_max cerat_min.
             if eavail > demand then 1 / cerat_min
             else 1 / cerat_max + (1 / cerat_min - 1 / cerat_max) * eavail / demand)
      in below * blend cerat_max_below cerat_min_below
         + above * blend cerat_max_above cerat_min_above)"

section \<open>Gross mineralization: \<^verbatim>\<open>update_gross_mineralization\<close>\<close>

text \<open>
  Modelled from the spec: \<^verbatim>\<open>update_gross_mineralization\<close> belongs to
  \<^verbatim>\<open>rangeland_production/forage.py\<close>, which is not among the sources; only its test
  \<^verbatim>\<open>test_update_gross_mineralization\<close> is. The specification gives it in full: it
  "returns \<^verbatim>\<open>g + flow\<close> if \<^verbatim>\<open>flow > 0\<close>, else returns \<^verbatim>\<open>g\<close> unchanged".
\<close>

definition update_gross_mineralization :: "real \<Rightarrow> real \<Rightarrow> real" where
  "update_gross_mineralization gross_mineralization mineral_flow =
     (if mineral_flow > 0 then gross_mineralization + mineral_flow
      else gross_mineralization)"

section \<open>Leaching intensity\<close>

text \<open>\<^verbatim>\<open>numpy.clip(x, lo, hi)\<close>, which is \<^verbatim>\<open>minimum(maximum(x, lo), hi)\<close>.\<close>

definition np_clip :: "real \<Rightarrow> real \<Rightarrow> real \<Rightarrow> real" where
  "np_clip x lo hi = min (max x lo) hi"

text \<open>
  The leaching intensity of one layer in \<^verbatim>\<open>leach_point\<close> (inside \<^verbatim>\<open>test_leaching\<close>),
  \<^verbatim>\<open>numpy.clip(1 - (minlch - amov) / minlch, 0., 1.)\<close> on Python floats, and the amount
  that leaves the layer, \<^verbatim>\<open>frlech * minerl * linten\<close>.
\<close>

definition leach_linten :: "real \<Rightarrow> real \<Rightarrow> py_error + real" where
  "leach_linten minlch amov =
     bindE (py_div (minlch - amov) minlch) (\<lambda>q. Inr (np_clip (1 - q) 0 1))"

definition leach_amount :: "real \<Rightarrow> real \<Rightarrow> real \<Rightarrow> real \<Rightarrow> py_error + real" where
  "leach_amount frlech minerl minlch amov =
     bindE (leach_linten minlch amov) (\<lambda>linten. Inr (frlech * minerl * linten))"

text \<open>
  Modelled from the spec: \<^verbatim>\<open>calc_c_leach\<close> belongs to \<^verbatim>\<open>rangeland_production/forage.py\<close>,
  which is not among the sources; only its test \<^verbatim>\<open>test_calc_c_leach\<close> is. By the
  specification the leaching intensity \<^verbatim>\<open>linten\<close> is "derived from the ratio of layer
  percolation (\<^verbatim>\<open>amov\<close>) to a leaching-threshold parameter, clipped to [0,1]", and the
  claim gives leached C as \<^verbatim>\<open>tcflow * orglch\<close> times that intensity. The function works
  on numpy arrays, where a zero threshold gives an infinity or a NaN and no exception:
  that case has no real value and is \<open>None\<close> here.
\<close>

definition c_leach_linten :: "real \<Rightarrow> real \<Rightarrow> real option" where
  "c_leach_linten amov_2 omlech_3 =
     (if omlech_3 = 0 then None else Some (np_clip (amov_2 / omlech_3) 0 1))"

definition calc_c_leach :: "real \<Rightarrow> real \<Rightarrow> real \<Rightarrow> real \<Rightarrow> real option" where
  "calc_c_leach amov_2 tcflow omlech_3 orglch =
     map_option (\<lambda>linten. tcflow * orglch * linten) (c_leach_linten amov_2 omlech_3)"

section \<open>Potential transpiration: \<^verbatim>\<open>potential_transpiration_point\<close>\<close>

record transpiration =
  trap :: real
  pevp :: real
  modified_moisture_inputs :: real

text \<open>
  The function of \<^verbatim>\<open>test_potential_transpiration\<close> (the nested
  \<^verbatim>\<open>potential_transpiration_point\<close>), line by line. \<^verbatim>\<open>math.exp\<close> is the real exponential.
\<close>

definition potential_transpiration_point ::
  "real \<Rightarrow> real \<Rightarrow> real \<Rightarrow> real \<Rightarrow> real \<Rightarrow> transpiration" where
  "potential_transpiration_point pet_rem evap_losses tave aliv current_moisture_inputs =
     (let trap = pet_rem - evap_losses;
          pttr = (if tave < 2 then 0 else pet_rem * 0.65 * (1 - exp (- 0.02 * aliv)));
          trap = (if pttr \<le> trap then pttr else trap);
          trap = (if trap \<le> 0 then 0.01 else trap);
          pevp = max (pet_rem - trap - evap_losses) 0;
          tran = min (trap - 0.01) current_moisture_inputs;
          trap = trap - tran;
          modified_moisture_inputs = current_moisture_inputs - tran
      in \<lparr>trap = trap, pevp = pevp,
          modified_moisture_inputs = modified_moisture_inputs\<rparr>)"

text \<open>
  Two local variables of that function, as functions of its arguments: \<^verbatim>\<open>pttr\<close>, the
  potential transpiration computed from remaining PET and live biomass, and \<^verbatim>\<open>trap\<close>
  as it stands before the line \<^verbatim>\<open>tran = min(trap - 0.01, current_moisture_inputs)\<close>, the
  transpiration demand that the surface input then pre-satisfies.
\<close>

definition pttr :: "real \<Rightarrow> real \<Rightarrow> real \<Rightarrow> real" where
  "pttr pet_rem tave aliv =
     (if tave < 2 then 0 else pet_rem * 0.65 * (1 - exp (- 0.02 * aliv)))"

definition transpiration_demand :: "real \<Rightarrow> real \<Rightarrow> real \<Rightarrow> real \<Rightarrow> real" where
  "transpiration_demand pet_rem evap_losses tave aliv =
     (let trap = pet_rem - evap_losses;
          trap = (if pttr pet_rem tave aliv \<le> trap then pttr pet_rem tave aliv else trap)
      in if trap \<le> 0 then 0.01 else trap)"

section \<open>Decomposition factor: \<^verbatim>\<open>defac_point\<close>\<close>

text \<open>
  \<^verbatim>\<open>defac_point\<close>, with \<^verbatim>\<open>math.exp\<close>, \<^verbatim>\<open>numpy.arctan\<close> and \<^verbatim>\<open>math.pi\<close> as the real
  exponential, arc tangent and \<open>\<pi>\<close>. The two operands of the quotient in \<^verbatim>\<open>tfunc\<close> are
  numpy floats (results of \<^verbatim>\<open>numpy.arctan\<close>), whose division by zero raises nothing
  and gives an infinity or a NaN: that case has no real value and is \<open>None\<close> here. The
  divisor \<open>1 + 30 * exp (- 8.5 * rprpet)\<close> of \<^verbatim>\<open>agwfunc\<close> is never zero.
\<close>

definition defac_point ::
  "real \<Rightarrow> real \<Rightarrow> real \<Rightarrow> real \<Rightarrow> real \<Rightarrow> real \<Rightarrow> real \<Rightarrow> real \<Rightarrow> real option" where
  "defac_point snow min_temp max_temp rprpet teff_1 teff_2 teff_3 teff_4 =
     (let agwfunc = (if rprpet > 9 then 1 else 1 / (1 + 30 * exp (- 8.5 * rprpet)));
          stemp = (if snow > 0 then 0 else (min_temp + max_temp) / 2);
          numerator = teff_2 + (teff_3 / pi) * arctan (pi * teff_4 * (stemp - teff_1));
          denominator = teff_2 + (teff_3 / pi) * arctan (pi * teff_4 * (30 - teff_1))
      in if denominator = 0 then None
         else
           let tfunc = max 0.01 (numerator / denominator)
           in Some (max 0 (tfunc * agwfunc)))"

section \<open>RouteDEM: \<^verbatim>\<open>execute\<close> of \<^verbatim>\<open>routedem.py\<close>\<close>

text \<open>
  The \<^verbatim>\<open>args\<close> dictionary maps strings to Python values: strings, booleans, numbers
  and \<^verbatim>\<open>None\<close>. Strings are byte strings.
\<close>

datatype arg_value = Str string | Bool bool | Num real | NoneValue

type_synonym args = "string \<Rightarrow> arg_value option"

text \<open>\<^verbatim>\<open>args[key]\<close>, which raises \<^verbatim>\<open>KeyError\<close> for a missing key.\<close>

definition lookup :: "args \<Rightarrow> string \<Rightarrow> py_error + arg_value" where
  "lookup args key = (case args key of None \<Rightarrow> Inl (KeyError key) | Some v \<Rightarrow> Inr v)"

text \<open>\<^verbatim>\<open>bool(v)\<close>, and the test \<^verbatim>\<open>key in args and bool(args[key])\<close>.\<close>

fun truthy :: "arg_value \<Rightarrow> bool" where
  "truthy (Str s) = (s \<noteq> [])"
| "truthy (Bool b) = b"
| "truthy (Num x) = (x \<noteq> 0)"
| "truthy NoneValue = False"

definition flag :: "args \<Rightarrow> string \<Rightarrow> bool" where
  "flag args key = (case args key of None \<Rightarrow> False | Some v \<Rightarrow> truthy v)"

text \<open>
  \<^verbatim>\<open>float(v)\<close>. Which strings Python reads as a number is a parameter,
  \<open>parse_float\<close>.
\<close>

fun py_float :: "(string \<Rightarrow> real option) \<Rightarrow> arg_value \<Rightarrow> py_error + real" where
  "py_float parse_float (Str s) =
     (case parse_float s of None \<Rightarrow> Inl ValueError | Some x \<Rightarrow> Inr x)"
| "py_float parse_float (Bool b) = Inr (if b then 1 else 0)"
| "py_float parse_float (Num x) = Inr x"
| "py_float parse_float NoneValue = Inl TypeError"

text \<open>
  \<^verbatim>\<open>str.upper()\<close> on a byte string: the letters \<^verbatim>\<open>a\<close> to \<^verbatim>\<open>z\<close> (codes 97 to 122) move to
  \<^verbatim>\<open>A\<close> to \<^verbatim>\<open>Z\<close>, every other byte stays.
\<close>

definition char_upper :: "char \<Rightarrow> char" where
  "char_upper c =
     (let n = (of_char c :: nat) in if 97 \<le> n \<and> n \<le> 122 then char_of (n - 32) else c)"

definition py_upper :: "string \<Rightarrow> string" where
  "py_upper s = map char_upper s"

text \<open>\<^verbatim>\<open>sep.join(xs)\<close>.\<close>

fun py_join :: "string \<Rightarrow> string list \<Rightarrow> string" where
  "py_join sep [] = []"
| "py_join sep [x] = x"
| "py_join sep (x # y # ys) = x @ sep @ py_join sep (y # ys)"

text \<open>
  The module constant \<^verbatim>\<open>_ROUTING_FUNCS\<close>: for each algorithm the four routing functions
  of \<^verbatim>\<open>pygeoprocessing.routing\<close>, here by name. The dictionary is an association
  list; its keys are distinct.
\<close>

record routing_funcs =
  flow_accumulation :: string
  flow_direction :: string
  threshold_flow :: "string option"
  distance_to_channel :: string

definition ROUTING_FUNCS :: "(string \<times> routing_funcs) list" where
  "ROUTING_FUNCS =
     [(''D8'', \<lparr>flow_accumulation = ''flow_accumulation_d8'',
               flow_direction = ''flow_dir_d8'',
               threshold_flow = None,
               distance_to_channel = ''distance_to_channel_d8''\<rparr>),
      (''MFD'', \<lparr>flow_accumulation = ''flow_accumulation_mfd'',
                flow_direction = ''flow_dir_mfd'',
                threshold_flow = Some ''extract_streams_mfd'',
                distance_to_channel = ''distance_to_channel_mfd''\<rparr>)]"

text \<open>
  "Check the algorithm early so we can fail quickly": the upper-cased name is looked up
  in \<^verbatim>\<open>_ROUTING_FUNCS\<close>, and the \<^verbatim>\<open>KeyError\<close> of a name that is not a key becomes a
  \<^verbatim>\<open>RuntimeError\<close> whose message is
  \<^verbatim>\<open>'Invalid algorithm specified (%s). Must be one of %s'\<close> filled with the name as
  given and the sorted keys joined by \<^verbatim>\<open>', '\<close>. A value without the method \<^verbatim>\<open>upper\<close>
  raises \<^verbatim>\<open>AttributeError\<close>. The result is the upper-cased name with its functions.
\<close>

definition check_algorithm :: "args \<Rightarrow> py_error + string \<times> routing_funcs" where
  "check_algorithm args =
     bindE (lookup args ''algorithm'') (\<lambda>v.
       case v of
         Str given \<Rightarrow>
           (let algorithm = py_upper given in
            case map_of ROUTING_FUNCS algorithm of
              Some routing_funcs \<Rightarrow> Inr (algorithm, routing_funcs)
            | None \<Rightarrow>
                Inl (RuntimeError
                  (''Invalid algorithm specified ('' @ given @ ''). Must be one of ''
                   @ py_join '', '' (sort (map fst ROUTING_FUNCS)))))
       | _ \<Rightarrow> Inl AttributeError)"

text \<open>
  What \<^verbatim>\<open>execute\<close> does to the world, in order: the calls that touch the file system
  and the calls on the task graph. \<^verbatim>\<open>AddTask\<close> carries the task name and the name of
  the function that the task will run.
\<close>

datatype event =
    MakeDirectories
  | GetRasterInfo
  | LogWarning
  | NewTaskGraph
  | AddTask string string
  | JoinTask
  | JoinGraph

record run =
  events :: "event list"
  raised :: "py_error option"

text \<open>
  The part of \<^verbatim>\<open>execute\<close> after the check, from \<^verbatim>\<open>graph = taskgraph.TaskGraph(...)\<close> to
  \<^verbatim>\<open>graph.join()\<close>. The arguments of a task are evaluated before \<^verbatim>\<open>add_task\<close> is
  called, so a missing threshold key or a threshold that \<^verbatim>\<open>float\<close> rejects raises
  before the stream task is added. In the MFD branch the source passes the task name
  inside a list; the name is recorded.
\<close>

definition schedule_tasks ::
  "(string \<Rightarrow> real option) \<Rightarrow> args \<Rightarrow> string \<Rightarrow> routing_funcs \<Rightarrow> run" where
  "schedule_tasks parse_float args algorithm routing_funcs =
     (let evs = [NewTaskGraph];
          evs = (if flag args ''calculate_slope''
                 then evs @ [AddTask ''calculate_slope'' ''calculate_slope''] else evs);
          evs = evs @ [AddTask ''fill_pits'' ''fill_pits''];
          evs = evs @ [AddTask (''flow_dir_'' @ algorithm) (flow_direction routing_funcs)]
      in
      if \<not> flag args ''calculate_flow_accumulation''
      then \<lparr>events = evs @ [JoinGraph], raised = None\<rparr>
      else
        let evs = evs @ [AddTask (''flow_accumulation_'' @ algorithm)
                           (flow_accumulation routing_funcs)]
        in
        if \<not> flag args ''calculate_stream_threshold''
        then \<lparr>events = evs @ [JoinGraph], raised = None\<rparr>
        else
          let evs = (if algorithm = ''D8'' then evs @ [JoinTask, GetRasterInfo] else evs);
              threshold =
                (if algorithm = ''D8''
                 then bindE (lookup args ''threshold_flow_accumulation'') (py_float parse_float)
                 else bindE (lookup args ''stream_threshold'') (py_float parse_float))
          in
          case threshold of
            Inl e \<Rightarrow> \<lparr>events = evs, raised = Some e\<rparr>
          | Inr _ \<Rightarrow>
              let evs = (if algorithm = ''D8''
                         then evs @ [AddTask ''stream_thresholding_D8'' ''raster_calculator'']
                         else evs @ [AddTask ''stream_extraction_MFD''
                                       (case threshold_flow routing_funcs of
                                          None \<Rightarrow> ''None'' | Some f \<Rightarrow> f)]);
                  evs = (if flag args ''calculate_downstream_distance''
                         then evs @ [AddTask (''downstream_distance_'' @ algorithm)
                                       (distance_to_channel routing_funcs)]
                         else evs)
              in \<lparr>events = evs @ [JoinGraph], raised = None\<rparr>)"

text \<open>
  \<^verbatim>\<open>os.path.join(dir, name)\<close> of the standard library, with \<^verbatim>\<open>/\<close> as the separator: a
  directory that is not a string is refused, with \<^verbatim>\<open>TypeError\<close> on Python 3
  (\<^verbatim>\<open>AttributeError\<close> on Python 2).
\<close>

definition os_path_join :: "arg_value \<Rightarrow> string \<Rightarrow> py_error + string" where
  "os_path_join dir name =
     (case dir of
        Str d \<Rightarrow>
          Inr (if d = [] \<or> last d = CHR ''/'' then d @ name else d @ ''/'' @ name)
      | _ \<Rightarrow> Inl TypeError)"

text \<open>
  \<^verbatim>\<open>execute\<close>. The first statement that can raise is
  \<^verbatim>\<open>os.path.join(args['workspace_dir'], '_tmp_work_tokens')\<close>, before the directories are
  made. The calls into \<^verbatim>\<open>utils\<close>, \<^verbatim>\<open>pygeoprocessing\<close> and \<^verbatim>\<open>taskgraph\<close> are
  outside this repository's sources and are taken to succeed; what they answer is a
  parameter where the function branches on it (\<open>n_bands\<close>, the number of bands of the
  DEM). \<^verbatim>\<open>utils.make_suffix_string\<close> only reads the optional key \<^verbatim>\<open>results_suffix\<close>.
\<close>

definition execute :: "(string \<Rightarrow> real option) \<Rightarrow> nat \<Rightarrow> args \<Rightarrow> run" where
  "execute parse_float n_bands args =
     (case bindE (lookup args ''workspace_dir'')
             (\<lambda>dir. os_path_join dir ''_tmp_work_tokens'') of
        Inl e \<Rightarrow> \<lparr>events = [], raised = Some e\<rparr>
      | Inr task_cache_dir \<Rightarrow>
     let evs = [MakeDirectories] in
     case lookup args ''dem_path'' of
        Inl e \<Rightarrow> \<lparr>events = evs, raised = Some e\<rparr>
      | Inr _ \<Rightarrow>
     let evs = evs @ [GetRasterInfo];
         evs = (if n_bands > 1 then evs @ [LogWarning] else evs) in
     case check_algorithm args of
        Inl e \<Rightarrow> \<lparr>events = evs, raised = Some e\<rparr>
      | Inr (algorithm, routing_funcs) \<Rightarrow>
          let r = schedule_tasks parse_float args algorithm routing_funcs
          in \<lparr>events = evs @ events r, raised = raised r\<rparr>)"

text \<open>The events that create the task graph or schedule a computation on it.\<close>

fun is_scheduling :: "event \<Rightarrow> bool" where
  "is_scheduling NewTaskGraph = True"
| "is_scheduling (AddTask name func) = True"
| "is_scheduling e = False"

section \<open>Facts about \<^verbatim>\<open>esched\<close>\<close>

lemma bindE_Inr [simp]: "bindE (Inr x) f = f x"
  by (simp add: bindE_def)

lemma bindE_Inl [simp]: "bindE (Inl e) f = Inl e"
  by (simp add: bindE_def)

lemma py_div_nonzero [simp]: "b \<noteq> 0 \<Longrightarrow> py_div a b = Inr (a / b)"
  by (simp add: py_div_def)

lemma py_div_zero [simp]: "py_div a 0 = Inl ZeroDivisionError"
  by (simp add: py_div_def)

lemma esched_defined:
  assumes "tca \<noteq> 0" "anps \<noteq> 0" "cflow \<noteq> 0" "rcetob \<noteq> 0"
  shows "esched cflow tca rcetob anps labile =
     (let outofa = esched_outofa cflow tca anps;
          immflo = esched_immflo cflow tca rcetob anps in
      if cflow / outofa > rcetob then
        (if labile - immflo > 0 then
           Inr \<lparr>material_leaving_a = outofa, material_arriving_b = outofa + immflo,
                mnrflo = - immflo\<rparr>
         else Inr \<lparr>material_leaving_a = 0, material_arriving_b = 0, mnrflo = 0\<rparr>)
      else Inr \<lparr>material_leaving_a = outofa, material_arriving_b = cflow / rcetob,
                mnrflo = outofa - cflow / rcetob\<rparr>)"
  using assms by (simp add: esched_def esched_outofa_def esched_immflo_def Let_def)

lemma esched_raises:
  assumes "tca = 0 \<or> anps = 0 \<or> cflow = 0 \<or> rcetob = 0"
  shows "esched cflow tca rcetob anps labile = Inl ZeroDivisionError"
proof (cases "tca = 0")
  case True
  then show ?thesis by (simp add: esched_def)
next
  case tca: False
  then have q: "py_div cflow tca = Inr (cflow / tca)" by simp
  show ?thesis
  proof (cases "anps * (cflow / tca) = 0")
    case True
    then have "py_div cflow (anps * (cflow / tca)) = Inl ZeroDivisionError"
      by (simp only: py_div_zero)
    then show ?thesis
      by (simp only: esched_def q bindE_Inr bindE_Inl Let_def)
  next
    case False
    then have r: "py_div cflow (anps * (cflow / tca)) = Inr (cflow / (anps * (cflow / tca)))"
      by (simp only: py_div_def if_False)
    from tca False assms have "rcetob = 0" by auto
    then have "py_div cflow rcetob = Inl ZeroDivisionError" by simp
    then show ?thesis
      by (simp only: esched_def q r bindE_Inr bindE_Inl Let_def if_cancel)
  qed
qed

lemma esched_returns:
  assumes "tca \<noteq> 0" "anps \<noteq> 0" "cflow \<noteq> 0" "rcetob \<noteq> 0"
  shows "\<exists>r. esched cflow tca rcetob anps labile = Inr r"
  using esched_defined [OF assms, of labile] by (simp add: Let_def)

text \<open>
  The three closures \<^verbatim>\<open>esched_point('material_leaving_a')\<close>,
  \<^verbatim>\<open>esched_point('material_arriving_b')\<close> and \<^verbatim>\<open>esched_point('mineral_flow')\<close> return the
  three fields of one evaluation of \<open>esched\<close>, and raise when it raises.
\<close>

lemma esched_point_fields:
  "esched cflow tca rcetob anps labile = Inr fl \<Longrightarrow>
     esched_point ''material_leaving_a'' cflow tca rcetob anps labile
       = Inr (Some (material_leaving_a fl)) \<and>
     esched_point ''material_arriving_b'' cflow tca rcetob anps labile
       = Inr (Some (material_arriving_b fl)) \<and>
     esched_point ''mineral_flow'' cflow tca rcetob anps labile = Inr (Some (mnrflo fl))"
  by (simp add: esched_point_def)

lemma esched_point_raises:
  "esched cflow tca rcetob anps labile = Inl e \<Longrightarrow>
     esched_point return_type cflow tca rcetob anps labile = Inl e"
  by (simp add: esched_point_def)

text \<open>\<open>esched\<close> is \<open>esched_arith\<close> at the exact arithmetic of the reals.\<close>

lemma esched_arith_real:
  "esched cflow tca rcetob anps labile =
     map_sum id (\<lambda>(a, b, m). \<lparr>material_leaving_a = a, material_arriving_b = b, mnrflo = m\<rparr>)
       (esched_arith real_arith cflow tca rcetob anps labile)"
  by (simp add: esched_def esched_arith_def arith_div_def py_div_def real_arith_def Let_def)

lemma esched_arith_only_zero_division:
  "esched_arith A cflow tca rcetob anps labile = Inl e \<Longrightarrow> e = ZeroDivisionError"
  by (simp add: esched_arith_def arith_div_def Let_def split: if_splits)

text \<open>The exact product of two positive numbers of size \<open>10\<^sup>-\<^sup>1\<^sup>7\<^sup>0\<close> underflows.\<close>

lemma underflow_product_small:
  "\<bar>(1 / 10 ^ 170) * ((1 / 10 ^ 170) / 1)\<bar> < (1::real) / 10 ^ 324"
proof -
  have "(1 / 10 ^ 170) * ((1 / 10 ^ 170) / 1) = (1::real) / 10 ^ 340"
    by (simp add: power_add [symmetric] del: power_numeral)
  moreover have "(1::real) / 10 ^ 340 < 1 / 10 ^ 324"
    by (intro divide_strict_left_mono power_strict_increasing mult_pos_pos zero_less_power)
      simp_all
  ultimately show ?thesis by (simp del: power_numeral)
qed

section \<open>Facts about \<^verbatim>\<open>declig\<close>\<close>

lemma bindE_InrE:
  assumes "bindE m f = Inr y"
  obtains x where "m = Inr x" "f x = Inr y"
  using assms by (cases m) simp_all

lemma respiration_flows_strucc:
  "respiration_flows d co2los strucc_lyr struce_lyr_1 struce_lyr_2 = Inr d' \<Longrightarrow>
   d_strucc_lyr d' = d_strucc_lyr d"
  by (auto simp: respiration_flows_def Let_def elim!: bindE_InrE split: if_splits)

lemma respiration_flows_returns:
  "strucc_lyr \<noteq> 0 \<Longrightarrow>
   \<exists>d'. respiration_flows d co2los strucc_lyr struce_lyr_1 struce_lyr_2 = Inr d'"
  by (simp add: respiration_flows_def Let_def)

lemma schedule_strucc [simp]:
  "d_strucc_lyr (schedule_som2_N d fl) = d_strucc_lyr d"
  "d_strucc_lyr (schedule_som2_P d fl) = d_strucc_lyr d"
  "d_strucc_lyr (schedule_som1_N d fl) = d_strucc_lyr d"
  "d_strucc_lyr (schedule_som1_P d fl) = d_strucc_lyr d"
  by (simp_all add: schedule_som2_N_def schedule_som2_P_def schedule_som1_N_def
      schedule_som1_P_def Let_def)

text \<open>When the mask holds, the whole flow \<^verbatim>\<open>tcflow\<close> leaves the structural pool.\<close>

lemma declig_strucc:
  assumes "declig aminrl_1 aminrl_2 ligcon rsplig ps1co2_lyr strucc_lyr tcflow
       struce_lyr_1 struce_lyr_2 rnew_lyr_1_1 rnew_lyr_2_1 rnew_lyr_1_2 rnew_lyr_2_2
       minerl_1_1 minerl_1_2 = Inr d"
    and "decompose_mask aminrl_1 aminrl_2 strucc_lyr struce_lyr_1 struce_lyr_2
              rnew_lyr_1_1 rnew_lyr_2_1 = Inr True"
  shows "d_strucc_lyr d = - tcflow"
  using assms
  by (auto simp: declig_def Let_def no_change_def elim!: bindE_InrE
      dest!: respiration_flows_strucc)

text \<open>
  \<^verbatim>\<open>_declig\<close> returns when no divisor is zero: the pools and the required ratios are not
  zero, and neither net flow (to SOM2, to SOM1) is zero.
\<close>

lemma declig_returns:
  assumes "strucc_lyr \<noteq> 0" "struce_lyr_1 \<noteq> 0" "struce_lyr_2 \<noteq> 0"
    "rnew_lyr_1_1 \<noteq> 0" "rnew_lyr_2_1 \<noteq> 0" "rnew_lyr_1_2 \<noteq> 0" "rnew_lyr_2_2 \<noteq> 0"
    "tcflow * ligcon - tcflow * ligcon * rsplig \<noteq> 0"
    "tcflow - tcflow * ligcon - (tcflow - tcflow * ligcon) * ps1co2_lyr \<noteq> 0"
  shows "\<exists>d. declig aminrl_1 aminrl_2 ligcon rsplig ps1co2_lyr strucc_lyr tcflow
       struce_lyr_1 struce_lyr_2 rnew_lyr_1_1 rnew_lyr_2_1 rnew_lyr_1_2 rnew_lyr_2_2
       minerl_1_1 minerl_1_2 = Inr d"
proof -
  obtain m where m: "decompose_mask aminrl_1 aminrl_2 strucc_lyr struce_lyr_1 struce_lyr_2
              rnew_lyr_1_1 rnew_lyr_2_1 = Inr m"
    using assms by (simp add: decompose_mask_def)
  show ?thesis
  proof (cases m)
    case False
    with m show ?thesis by (simp add: declig_def)
  next
    case True
    define tosom2 where "tosom2 = tcflow * ligcon"
    define net2 where "net2 = tosom2 - tosom2 * rsplig"
    define tosom1 where "tosom1 = tcflow - tosom2"
    define net1 where "net1 = tosom1 - tosom1 * ps1co2_lyr"
    have nz: "net2 \<noteq> 0" "net1 \<noteq> 0"
      using assms by (simp_all add: net2_def net1_def tosom1_def tosom2_def)
    obtain d1 where d1: "respiration_flows (no_change\<lparr>d_strucc_lyr := - tcflow\<rparr>)
        (tosom2 * rsplig) strucc_lyr struce_lyr_1 struce_lyr_2 = Inr d1"
      using respiration_flows_returns [OF assms(1)] by blast
    obtain n2 where n2: "esched net2 strucc_lyr rnew_lyr_1_2 struce_lyr_1 minerl_1_1 = Inr n2"
      using esched_returns [OF assms(1,2) nz(1) assms(6)] by blast
    obtain p2 where p2: "esched net2 strucc_lyr rnew_lyr_2_2 struce_lyr_2 minerl_1_2 = Inr p2"
      using esched_returns [OF assms(1,3) nz(1) assms(7)] by blast
    obtain d2 where d2: "respiration_flows
        (schedule_som2_P (schedule_som2_N (d1\<lparr>d_som2c_lyr := d_som2c_lyr d1 + net2\<rparr>) n2) p2)
        (tosom1 * ps1co2_lyr) strucc_lyr struce_lyr_1 struce_lyr_2 = Inr d2"
      using respiration_flows_returns [OF assms(1)] by blast
    obtain n1 where n1: "esched net1 strucc_lyr rnew_lyr_1_1 struce_lyr_1 minerl_1_1 = Inr n1"
      using esched_returns [OF assms(1,2) nz(2) assms(4)] by blast
    obtain p1 where p1: "esched net1 strucc_lyr rnew_lyr_2_1 struce_lyr_2 minerl_1_2 = Inr p1"
      using esched_returns [OF assms(1,3) nz(2) assms(5)] by blast
    show ?thesis
      using m True d1 n2 p2 d2 n1 p1
      by (simp add: declig_def Let_def tosom2_def [symmetric] net2_def [symmetric]
          tosom1_def [symmetric] net1_def [symmetric])
  qed
qed

lemma declig_no_decomposition_scenario:
  "declig 0 0 0.3779 0.0146 0.0883 155.5253 40.82 0.7776 0.3111 190 300 0 0 0 0
     = Inr no_change"
  by (simp add: declig_def decompose_mask_def)

section \<open>Facts about \<^verbatim>\<open>calc_nutrient_limitation_point\<close>\<close>

lemma py_div_InrE:
  assumes "py_div a b = Inr x"
  obtains "b \<noteq> 0" "x = a / b"
  using assms by (auto simp: py_div_def split: if_splits)

lemma ecfor_cpbe:
  assumes "ecfor_supply_demand eavail
      (potenc * (rtsh / (rtsh + 1) * (1 / cminb) + (1 - rtsh / (rtsh + 1)) * (1 / cmina)))
      (1 / cmina) (1 / cmaxa) (1 / cminb) (1 / cmaxb) = Inr e"
  shows "rtsh / (rtsh + 1) * snd e + (1 - rtsh / (rtsh + 1)) * fst e
       = cpbe_spec potenc rtsh eavail cmaxa cmaxb cmina cminb"
  using assms
  by (auto simp: ecfor_supply_demand_def cpbe_spec_def Let_def elim!: bindE_InrE py_div_InrE
      split: if_splits)

lemma cnl_InrE:
  assumes "calc_nutrient_limitation_point potenc rtsh eavail_1 eavail_2 snfxmx_1
       cerat_max_above_1 cerat_max_below_1 cerat_max_above_2 cerat_max_below_2
       cerat_min_above_1 cerat_min_below_1 cerat_min_above_2 cerat_min_below_2 = Inr r"
  obtains e1 e2 where
    "r = limited_production potenc eavail_1 snfxmx_1 (rtsh / (rtsh + 1)) (1 - rtsh / (rtsh + 1))
          (fst e1) (snd e1) (fst e2) (snd e2)
          (eavail_1 / cpbe_spec potenc rtsh eavail_1 cerat_max_above_1 cerat_max_below_1
                        cerat_min_above_1 cerat_min_below_1)
          (eavail_2 / cpbe_spec potenc rtsh eavail_2 cerat_max_above_2 cerat_max_below_2
                        cerat_min_above_2 cerat_min_below_2)"
  using assms
  unfolding calc_nutrient_limitation_point_def Let_def
  apply (elim bindE_InrE py_div_InrE)
  apply hypsubst
  apply (drule ecfor_cpbe)+
  apply (simp only: sum.inject)
  apply blast
  done

lemma limited_production_c: "c_production (limited_production potenc eavail_1 snfxmx_1 cb ca a1 b1 a2 b2 c1 c2)
   = min potenc (min c1 c2)"
  by (simp add: limited_production_def Let_def)

lemma limited_production_fix:
  "r = limited_production potenc eavail_1 snfxmx_1 cb ca a1 b1 a2 b2 c1 c2 \<Longrightarrow>
   plantNfix r =
     max (capped_eprodl_1 (eup_above_1 r + eup_below_1 r) eavail_1 (snfxmx_1 * c_production r)
          - eavail_1) 0"
  by (simp add: limited_production_def Let_def)

lemma capped_eprodl_1_bound: "capped_eprodl_1 e a m - (a + m) \<le> 0.05"
  by (simp add: capped_eprodl_1_def)


lemma ecfor_returns_pos:
  assumes "demand > 0" "eavail \<ge> 0" "0 < mina" "mina \<le> maxa" "0 < minb" "minb \<le> maxb"
  shows "\<exists>e. ecfor_supply_demand eavail demand maxa mina maxb minb = Inr e \<and>
             fst e > 0 \<and> snd e > 0"
proof (cases "eavail > demand")
  case True
  with assms show ?thesis by (simp add: ecfor_supply_demand_def)
next
  case False
  have "(maxa - mina) * eavail / demand \<ge> 0" "(maxb - minb) * eavail / demand \<ge> 0"
    using assms by simp_all
  with False assms show ?thesis
    by (simp add: ecfor_supply_demand_def add_pos_nonneg)
qed

lemma cnl_returns:
  assumes "potenc > 0" "rtsh \<ge> 0" "eavail_1 \<ge> 0" "eavail_2 \<ge> 0"
    and "0 < cerat_min_above_1" "cerat_min_above_1 \<le> cerat_max_above_1"
    and "0 < cerat_min_below_1" "cerat_min_below_1 \<le> cerat_max_below_1"
    and "0 < cerat_min_above_2" "cerat_min_above_2 \<le> cerat_max_above_2"
    and "0 < cerat_min_below_2" "cerat_min_below_2 \<le> cerat_max_below_2"
  shows "\<exists>r. calc_nutrient_limitation_point potenc rtsh eavail_1 eavail_2 snfxmx_1
       cerat_max_above_1 cerat_max_below_1 cerat_max_above_2 cerat_max_below_2
       cerat_min_above_1 cerat_min_below_1 cerat_min_above_2 cerat_min_below_2 = Inr r"
proof -
  define cfb where "cfb = rtsh / (rtsh + 1)"
  have cfb: "0 \<le> cfb" "0 < 1 - cfb"
    using assms(2) by (simp_all add: cfb_def)
  have blend: "0 < cfb * b + (1 - cfb) * a" if "0 < a" "0 < b" for a b
    using cfb that by (simp add: add_nonneg_pos)
  have inv: "0 < 1 / cmax" "1 / cmax \<le> 1 / cmin" if "0 < cmin" "cmin \<le> cmax" for cmin cmax :: real
    using that by (simp_all add: frac_le)
  define demand_1 where
    "demand_1 = potenc * (cfb * (1 / cerat_min_below_1) + (1 - cfb) * (1 / cerat_min_above_1))"
  define demand_2 where
    "demand_2 = potenc * (cfb * (1 / cerat_min_below_2) + (1 - cfb) * (1 / cerat_min_above_2))"
  have d1: "demand_1 > 0" unfolding demand_1_def
    using assms by (intro mult_pos_pos blend) simp_all
  have d2: "demand_2 > 0" unfolding demand_2_def
    using assms by (intro mult_pos_pos blend) simp_all
  obtain e1 where e1: "ecfor_supply_demand eavail_1 demand_1
      (1 / cerat_min_above_1) (1 / cerat_max_above_1)
      (1 / cerat_min_below_1) (1 / cerat_max_below_1) = Inr e1" "fst e1 > 0" "snd e1 > 0"
    using ecfor_returns_pos [OF d1 assms(3) inv [OF assms(5,6)] inv [OF assms(7,8)]] by blast
  obtain e2 where e2: "ecfor_supply_demand eavail_2 demand_2
      (1 / cerat_min_above_2) (1 / cerat_max_above_2)
      (1 / cerat_min_below_2) (1 / cerat_max_below_2) = Inr e2" "fst e2 > 0" "snd e2 > 0"
    using ecfor_returns_pos [OF d2 assms(4) inv [OF assms(9,10)] inv [OF assms(11,12)]] by blast
  have c1: "cfb * snd e1 + (1 - cfb) * fst e1 \<noteq> 0"
    using blend [OF e1(2,3)] by simp
  have c2: "cfb * snd e2 + (1 - cfb) * fst e2 \<noteq> 0"
    using blend [OF e2(2,3)] by simp
  have nz: "rtsh + 1 \<noteq> 0" "cerat_min_above_1 \<noteq> 0" "cerat_max_above_1 \<noteq> 0"
    "cerat_min_below_1 \<noteq> 0" "cerat_max_below_1 \<noteq> 0" "cerat_min_above_2 \<noteq> 0"
    "cerat_max_above_2 \<noteq> 0" "cerat_min_below_2 \<noteq> 0" "cerat_max_below_2 \<noteq> 0"
    using assms by simp_all
  show ?thesis
    unfolding calc_nutrient_limitation_point_def Let_def
    by (simp only: py_div_nonzero nz not_False_eq_True bindE_Inr cfb_def [symmetric]
        demand_1_def [symmetric] demand_2_def [symmetric] e1 e2 c1 c2) blast
qed

section \<open>Facts about \<^verbatim>\<open>defac_point\<close>\<close>

lemma agwfunc_bounds:
  "0 < (if rprpet > 9 then 1 else 1 / (1 + 30 * exp (- 8.5 * rprpet)) :: real)"
  "(if rprpet > 9 then 1 else 1 / (1 + 30 * exp (- 8.5 * rprpet)) :: real) \<le> 1"
proof -
  have "0 < exp (- 8.5 * rprpet)" by simp
  then have "1 \<le> 1 + 30 * exp (- 8.5 * rprpet)" by simp
  then show "0 < (if rprpet > 9 then 1 else 1 / (1 + 30 * exp (- 8.5 * rprpet)) :: real)"
    "(if rprpet > 9 then 1 else 1 / (1 + 30 * exp (- 8.5 * rprpet)) :: real) \<le> 1"
    by (simp_all add: add_pos_pos)
qed

lemma tfunc_curve_mono:
  assumes "teff_3 \<ge> 0" "teff_4 \<ge> 0" "x \<le> y"
  shows "teff_2 + (teff_3 / pi) * arctan (pi * teff_4 * (x - teff_1))
       \<le> teff_2 + (teff_3 / pi) * arctan (pi * teff_4 * (y - teff_1))"
proof -
  have "pi * teff_4 * (x - teff_1) \<le> pi * teff_4 * (y - teff_1)"
    using assms by (intro mult_left_mono) simp_all
  then have "arctan (pi * teff_4 * (x - teff_1)) \<le> arctan (pi * teff_4 * (y - teff_1))"
    by (rule arctan_monotone')
  then have "(teff_3 / pi) * arctan (pi * teff_4 * (x - teff_1))
      \<le> (teff_3 / pi) * arctan (pi * teff_4 * (y - teff_1))"
    using assms(1) by (intro mult_left_mono) simp_all
  then show ?thesis by simp
qed

lemma tfunc_denominator_pos:
  assumes "teff_2 > 0" "teff_3 \<ge> 0" "teff_4 \<ge> 0" "teff_1 \<le> 30"
  shows "0 < teff_2 + (teff_3 / pi) * arctan (pi * teff_4 * (30 - teff_1))"
proof -
  have "0 \<le> pi * teff_4 * (30 - teff_1)" using assms by simp
  then have "0 \<le> arctan (pi * teff_4 * (30 - teff_1))" by simp
  then have "0 \<le> (teff_3 / pi) * arctan (pi * teff_4 * (30 - teff_1))"
    using assms(2) by simp
  with assms(1) show ?thesis by simp
qed

lemma defac_bounded:
  assumes "teff_2 > 0" "teff_3 \<ge> 0" "teff_4 \<ge> 0" "teff_1 \<le> 30"
    and "snow > 0 \<or> (min_temp + max_temp) / 2 \<le> 30"
  shows "\<exists>defac. defac_point snow min_temp max_temp rprpet teff_1 teff_2 teff_3 teff_4 = Some defac
           \<and> 0 \<le> defac \<and> defac \<le> 1"
proof -
  define stemp where "stemp = (if snow > 0 then 0 else (min_temp + max_temp) / 2)"
  define agwfunc :: real where
    "agwfunc = (if rprpet > 9 then 1 else 1 / (1 + 30 * exp (- 8.5 * rprpet)))"
  define numerator where
    "numerator = teff_2 + (teff_3 / pi) * arctan (pi * teff_4 * (stemp - teff_1))"
  define denominator where
    "denominator = teff_2 + (teff_3 / pi) * arctan (pi * teff_4 * (30 - teff_1))"
  have stemp: "stemp \<le> 30" using assms(5) by (auto simp: stemp_def)
  have den: "0 < denominator"
    unfolding denominator_def by (rule tfunc_denominator_pos [OF assms(1-4)])
  have "numerator \<le> denominator"
    unfolding numerator_def denominator_def by (rule tfunc_curve_mono [OF assms(2,3) stemp])
  with den have "numerator / denominator \<le> 1" by simp
  then have t: "max 0.01 (numerator / denominator) \<le> 1" "0 \<le> max 0.01 (numerator / denominator)"
    by simp_all
  have a: "0 < agwfunc" "agwfunc \<le> 1"
    unfolding agwfunc_def by (rule agwfunc_bounds)+
  have "max 0.01 (numerator / denominator) * agwfunc \<le> 1"
    using t a by (intro mult_le_one) simp_all
  then have up: "max 0 (max 0.01 (numerator / denominator) * agwfunc) \<le> 1" by simp
  have eq: "defac_point snow min_temp max_temp rprpet teff_1 teff_2 teff_3 teff_4
      = Some (max 0 (max 0.01 (numerator / denominator) * agwfunc))"
    unfolding defac_point_def Let_def stemp_def [symmetric] agwfunc_def [symmetric]
      numerator_def [symmetric] denominator_def [symmetric]
    using den by simp
  show ?thesis unfolding eq using up by simp
qed

lemma defac_nonneg:
  "defac_point snow min_temp max_temp rprpet teff_1 teff_2 teff_3 teff_4 = Some defac \<Longrightarrow> 0 \<le> defac"
  by (auto simp: defac_point_def Let_def split: if_splits)

lemma defac_exceeds_one:
  assumes "teff_2 > 0" "teff_3 > 0" "teff_4 > 0" "teff_1 \<le> 30"
    and "\<not> snow > 0" "(min_temp + max_temp) / 2 > 30" "rprpet > 9"
  shows "\<exists>defac. defac_point snow min_temp max_temp rprpet teff_1 teff_2 teff_3 teff_4 = Some defac
           \<and> 1 < defac"
proof -
  define stemp where "stemp = (if snow > 0 then 0 else (min_temp + max_temp) / 2)"
  define agwfunc :: real where
    "agwfunc = (if rprpet > 9 then 1 else 1 / (1 + 30 * exp (- 8.5 * rprpet)))"
  define numerator where
    "numerator = teff_2 + (teff_3 / pi) * arctan (pi * teff_4 * (stemp - teff_1))"
  define denominator where
    "denominator = teff_2 + (teff_3 / pi) * arctan (pi * teff_4 * (30 - teff_1))"
  have stemp: "30 < stemp" using assms(5,6) by (simp add: stemp_def)
  have agw: "agwfunc = 1" using assms(7) by (simp add: agwfunc_def)
  have den: "0 < denominator"
    unfolding denominator_def using assms by (intro tfunc_denominator_pos) simp_all
  have "pi * teff_4 * (30 - teff_1) < pi * teff_4 * (stemp - teff_1)"
    using stemp assms(3) by simp
  then have "arctan (pi * teff_4 * (30 - teff_1)) < arctan (pi * teff_4 * (stemp - teff_1))"
    by (simp only: arctan_less_iff)
  then have "(teff_3 / pi) * arctan (pi * teff_4 * (30 - teff_1))
      < (teff_3 / pi) * arctan (pi * teff_4 * (stemp - teff_1))"
    using assms(2) by (intro mult_strict_left_mono) simp_all
  then have "denominator < numerator"
    by (simp add: numerator_def denominator_def)
  with den have "1 < numerator / denominator" by simp
  then have gt: "1 < max 0 (max 0.01 (numerator / denominator) * agwfunc)"
    unfolding agw by simp
  have eq: "defac_point snow min_temp max_temp rprpet teff_1 teff_2 teff_3 teff_4
      = Some (max 0 (max 0.01 (numerator / denominator) * agwfunc))"
    unfolding defac_point_def Let_def stemp_def [symmetric] agwfunc_def [symmetric]
      numerator_def [symmetric] denominator_def [symmetric]
    using den by simp
  show ?thesis unfolding eq using gt by simp
qed

section \<open>Facts about \<^verbatim>\<open>execute\<close>\<close>

lemma sorted_keys: "py_join '', '' (sort (map fst ROUTING_FUNCS)) = ''D8, MFD''"
  by (simp add: ROUTING_FUNCS_def)

lemma map_of_routing: "map_of ROUTING_FUNCS a = None \<longleftrightarrow> a \<noteq> ''D8'' \<and> a \<noteq> ''MFD''"
  by (simp add: ROUTING_FUNCS_def)

lemma check_algorithm_invalid:
  assumes "args ''algorithm'' = Some (Str given)" "py_upper given \<noteq> ''D8''" "py_upper given \<noteq> ''MFD''"
  shows "check_algorithm args = Inl (RuntimeError
        (''Invalid algorithm specified ('' @ given @ ''). Must be one of D8, MFD''))"
proof -
  have "map_of ROUTING_FUNCS (py_upper given) = None"
    using assms by (simp add: map_of_routing)
  then show ?thesis
    using assms(1) by (simp add: check_algorithm_def lookup_def sorted_keys Let_def)
qed

lemma check_algorithm_valid:
  assumes "args ''algorithm'' = Some (Str given)" "py_upper given = ''D8'' \<or> py_upper given = ''MFD''"
  shows "\<exists>rf. check_algorithm args = Inr (py_upper given, rf)"
proof -
  obtain rf where "map_of ROUTING_FUNCS (py_upper given) = Some rf"
    using assms(2) map_of_routing [of "py_upper given"] by auto
  then show ?thesis
    using assms(1) by (simp add: check_algorithm_def lookup_def Let_def)
qed

lemma py_float_no_runtime_error:
  "py_float parse_float v \<noteq> Inl (RuntimeError msg)"
  by (cases v) (simp_all split: option.splits)

lemma threshold_no_runtime_error:
  "bindE (lookup args key) (py_float parse_float) \<noteq> Inl (RuntimeError msg)"
  by (cases "args key") (simp_all add: lookup_def py_float_no_runtime_error)

lemma schedule_tasks_no_runtime_error:
  "raised (schedule_tasks parse_float args algorithm rf) \<noteq> Some (RuntimeError msg)"
  using threshold_no_runtime_error [of args "''threshold_flow_accumulation''" parse_float msg]
    threshold_no_runtime_error [of args "''stream_threshold''" parse_float msg]
  by (auto simp: schedule_tasks_def Let_def split: sum.splits)

lemma execute_invalid:
  assumes "args ''workspace_dir'' = Some (Str w)" "args ''dem_path'' = Some (Str p)"
    "args ''algorithm'' = Some (Str given)"
    "py_upper given \<noteq> ''D8''" "py_upper given \<noteq> ''MFD''"
  shows "execute parse_float n_bands args =
     \<lparr>events = [MakeDirectories, GetRasterInfo] @ (if n_bands > 1 then [LogWarning] else []),
      raised = Some (RuntimeError
        (''Invalid algorithm specified ('' @ given @ ''). Must be one of D8, MFD''))\<rparr>"
  using assms check_algorithm_invalid [of args given]
  by (simp add: execute_def lookup_def os_path_join_def Let_def)

lemma execute_valid:
  assumes "args ''algorithm'' = Some (Str given)"
    "py_upper given = ''D8'' \<or> py_upper given = ''MFD''"
  shows "raised (execute parse_float n_bands args) \<noteq> Some (RuntimeError msg)"
proof -
  obtain rf where "check_algorithm args = Inr (py_upper given, rf)"
    using assms check_algorithm_valid [of args given] by blast
  then show ?thesis
    using schedule_tasks_no_runtime_error [of parse_float args "py_upper given" rf msg]
    by (simp add: execute_def lookup_def os_path_join_def Let_def
        split: option.splits arg_value.splits)
qed

section \<open>Claims about \<^verbatim>\<open>esched\<close>\<close>

text \<open>
  C10, as stated: under \<open>tca > 0\<close>, \<open>anps > 0\<close>, \<open>rcetob > 0\<close> and \<open>cflow \<ge> 0\<close> no
  division of \<^verbatim>\<open>_esched\<close> has a zero divisor. This fails at \<open>cflow = 0\<close>: then
  \<open>outofa = anps * (0 / tca) = 0\<close> and the test \<^verbatim>\<open>cflow/outofa > rcetob\<close> divides zero by
  zero, which raises \<^verbatim>\<open>ZeroDivisionError\<close>.
\<close>

theorem esched_zero_cflow_counterexample:
  "(155.5253::real) > 0 \<and> (0.7776::real) > 0 \<and> (190.3::real) > 0 \<and> (0::real) \<ge> 0 \<and>
   esched 0 155.5253 190.3 0.7776 6.01 = Inl ZeroDivisionError"
  by (simp add: esched_def)

text \<open>
  C10, amended: \<^verbatim>\<open>_esched\<close> raises \<^verbatim>\<open>ZeroDivisionError\<close> exactly when one of its three
  divisors is zero: \<^verbatim>\<open>tca\<close>, the computed product \<^verbatim>\<open>outofa = anps * (cflow/tca)\<close>, or
  \<^verbatim>\<open>rcetob\<close>; when none of them is zero, every division is defined and the three flows
  are returned. This holds in every arithmetic, rounded or exact. So \<open>tca = 0\<close> and
  \<open>rcetob = 0\<close> always raise, \<open>cflow = 0\<close> and \<open>anps = 0\<close> raise whenever they make the
  product zero, and positive \<^verbatim>\<open>tca\<close>, \<^verbatim>\<open>anps\<close>, \<^verbatim>\<open>rcetob\<close>, \<^verbatim>\<open>cflow\<close> do not exclude a
  zero product where products are rounded.
\<close>

theorem esched_raises_on_zero_divisor:
  "(is_zero A tca \<or> is_zero A (fmul A anps (fquot A cflow tca)) \<or> is_zero A rcetob \<longrightarrow>
      esched_arith A cflow tca rcetob anps labile = Inl ZeroDivisionError) \<and>
   (\<not> is_zero A tca \<and> \<not> is_zero A (fmul A anps (fquot A cflow tca)) \<and>
    \<not> is_zero A rcetob \<longrightarrow>
      (\<exists>r. esched_arith A cflow tca rcetob anps labile = Inr r))"
  by (simp add: esched_arith_def arith_div_def Let_def)

text \<open>
  Over the reals, on the scenario of \<^verbatim>\<open>test_esched\<close>: \<open>tca = 0\<close>, \<open>rcetob = 0\<close> and
  \<open>cflow = 0\<close> each raise, and the scenario itself returns. With products that
  underflow, the positive inputs \<open>cflow = anps = 10\<^sup>-\<^sup>1\<^sup>7\<^sup>0\<close>, \<open>tca = rcetob = 1\<close> raise.
\<close>

theorem esched_raises_on_zero_divisor_witness:
  "esched_arith real_arith 15.2006 0 190.3 0.7776 6.01 = Inl ZeroDivisionError \<and>
   esched_arith real_arith 15.2006 155.5253 0 0.7776 6.01 = Inl ZeroDivisionError \<and>
   esched_arith real_arith 0 155.5253 190.3 0.7776 6.01 = Inl ZeroDivisionError \<and>
   (\<exists>r. esched_arith real_arith 15.2006 155.5253 190.3 0.7776 6.01 = Inr r) \<and>
   esched_arith underflow_arith (1 / 10 ^ 170) 1 1 (1 / 10 ^ 170) 1 = Inl ZeroDivisionError"
proof -
  have z: "is_zero underflow_arith
      (fmul underflow_arith (1 / 10 ^ 170) (fquot underflow_arith (1 / 10 ^ 170) 1))"
    using underflow_product_small
    by (simp add: underflow_arith_def real_arith_def del: power_numeral)
  have a: "esched_arith real_arith 15.2006 0 190.3 0.7776 6.01 = Inl ZeroDivisionError"
    using esched_raises_on_zero_divisor [of real_arith 0 "0.7776" "15.2006" "190.3" "6.01"]
    by (simp add: real_arith_def)
  have b: "esched_arith real_arith 15.2006 155.5253 0 0.7776 6.01 = Inl ZeroDivisionError"
    using esched_raises_on_zero_divisor [of real_arith "155.5253" "0.7776" "15.2006" 0 "6.01"]
    by (simp add: real_arith_def)
  have c: "esched_arith real_arith 0 155.5253 190.3 0.7776 6.01 = Inl ZeroDivisionError"
    using esched_raises_on_zero_divisor [of real_arith "155.5253" "0.7776" 0 "190.3" "6.01"]
    by (simp add: real_arith_def)
  have d: "\<exists>r. esched_arith real_arith 15.2006 155.5253 190.3 0.7776 6.01 = Inr r"
    using esched_raises_on_zero_divisor
      [of real_arith "155.5253" "0.7776" "15.2006" "190.3" "6.01"]
    by (simp add: real_arith_def)
  have e: "esched_arith underflow_arith (1 / 10 ^ 170) 1 1 (1 / 10 ^ 170) 1
      = Inl ZeroDivisionError"
    using esched_raises_on_zero_divisor
      [of underflow_arith 1 "1 / 10 ^ 170" "1 / 10 ^ 170" 1 1] z
    by blast
  from a b c d e show ?thesis by blast
qed

text \<open>
  C1, as stated: whenever the outputs are not all zero,
  \<open>material_leaving_a + mineral_flow = material_arriving_b\<close> up to floating tolerance.
  At the immobilization scenario of \<^verbatim>\<open>test_esched\<close> the flows are returned, they are
  not zero, and the two sides differ by twice the immobilized amount, more than \<open>0.007\<close>:
  \<^verbatim>\<open>mnrflo\<close> is positive towards the mineral pool, so it enters the balance with the
  other sign.
\<close>

theorem esched_conservation_counterexample:
  "\<not> isl (esched 15.2006 155.5253 190.3 0.7776 6.01) \<and>
   material_leaving_a (projr (esched 15.2006 155.5253 190.3 0.7776 6.01)) \<noteq> 0 \<and>
   material_arriving_b (projr (esched 15.2006 155.5253 190.3 0.7776 6.01))
     - (material_leaving_a (projr (esched 15.2006 155.5253 190.3 0.7776 6.01))
        + mnrflo (projr (esched 15.2006 155.5253 190.3 0.7776 6.01))) > 0.007"
  by (simp add: esched_def Let_def)

text \<open>
  C1, amended: whenever \<^verbatim>\<open>_esched\<close> returns, the element leaving box A is the element
  arriving in box B plus the flow to the mineral pool,
  \<open>material_leaving_a = material_arriving_b + mineral_flow\<close> (exactly, over the reals);
  and whenever immobilization is required (\<open>cflow / outofa > rcetob\<close>) and the mineral
  pool cannot supply it (\<open>labile - immflo \<le> 0\<close>), all three outputs are zero.
\<close>

theorem esched_conservation:
  "esched cflow tca rcetob anps labile = Inr r \<Longrightarrow>
     material_leaving_a r = material_arriving_b r + mnrflo r \<and>
     (cflow / esched_outofa cflow tca anps > rcetob \<and>
      labile - esched_immflo cflow tca rcetob anps \<le> 0 \<longrightarrow>
        material_leaving_a r = 0 \<and> material_arriving_b r = 0 \<and> mnrflo r = 0)"
proof -
  assume ret: "esched cflow tca rcetob anps labile = Inr r"
  have nz: "tca \<noteq> 0" "anps \<noteq> 0" "cflow \<noteq> 0" "rcetob \<noteq> 0"
    using ret esched_raises [of tca anps cflow rcetob labile] by auto
  from ret esched_defined [OF nz, of labile]
  show ?thesis
    by (auto simp: Let_def split: if_splits)
qed

theorem esched_conservation_witness:
  "esched 15.2006 155.5253 190.3 0.7776 0 =
     Inr \<lparr>material_leaving_a = 0, material_arriving_b = 0, mnrflo = 0\<rparr> \<and>
   15.2006 / esched_outofa 15.2006 155.5253 0.7776 > (190.3::real) \<and>
   0 - esched_immflo 15.2006 155.5253 190.3 0.7776 \<le> 0 \<and>
   (0::real) = 0 + 0"
proof -
  have ret: "esched 15.2006 155.5253 190.3 0.7776 0 =
     Inr \<lparr>material_leaving_a = 0, material_arriving_b = 0, mnrflo = 0\<rparr>"
    by (simp add: esched_def Let_def)
  have gate: "15.2006 / esched_outofa 15.2006 155.5253 0.7776 > (190.3::real) \<and>
     0 - esched_immflo 15.2006 155.5253 190.3 0.7776 \<le> 0"
    by (simp add: esched_outofa_def esched_immflo_def)
  from esched_conservation [OF ret] ret gate show ?thesis by simp
qed

section \<open>Claims about \<^verbatim>\<open>declig\<close>\<close>

text \<open>
  C2: \<^verbatim>\<open>_declig\<close> moves material only when its decompose mask holds. Whenever it returns
  deltas that are not all zero, then for N and for P either the averaged mineral
  \<open>aminrl\<close> exceeds \<open>1e-7\<close> or the C/element ratio of the decomposing pool is at most the
  ratio required for decomposition to SOM1. On the scenario of \<^verbatim>\<open>test_declig_point\<close>
  with \<open>aminrl_1 = aminrl_2 = 0\<close> (observed ratios 200.0068 and 499.9206 against the
  required 190 and 300) the twelve deltas are zero, under each of the twelve names
  that \<^verbatim>\<open>return_type\<close> takes.
\<close>

theorem declig_decomposes_only_under_mask:
  "(declig aminrl_1 aminrl_2 ligcon rsplig ps1co2_lyr strucc_lyr tcflow
       struce_lyr_1 struce_lyr_2 rnew_lyr_1_1 rnew_lyr_2_1 rnew_lyr_1_2 rnew_lyr_2_2
       minerl_1_1 minerl_1_2 = Inr d \<and> d \<noteq> no_change \<longrightarrow>
     (aminrl_1 > 0.0000001 \<or> strucc_lyr / struce_lyr_1 \<le> rnew_lyr_1_1) \<and>
     (aminrl_2 > 0.0000001 \<or> strucc_lyr / struce_lyr_2 \<le> rnew_lyr_2_1)) \<and>
   declig 0 0 0.3779 0.0146 0.0883 155.5253 40.82 0.7776 0.3111 190 300 0 0 0 0
     = Inr no_change \<and>
   map (\<lambda>return_type. declig_point return_type
          0 0 0.3779 0.0146 0.0883 155.5253 40.82 0.7776 0.3111 190 300 0 0 0 0)
       declig_return_types
     = replicate 12 (Inr (Some 0))"
proof (intro conjI impI)
  assume ret: "declig aminrl_1 aminrl_2 ligcon rsplig ps1co2_lyr strucc_lyr tcflow
       struce_lyr_1 struce_lyr_2 rnew_lyr_1_1 rnew_lyr_2_1 rnew_lyr_1_2 rnew_lyr_2_2
       minerl_1_1 minerl_1_2 = Inr d \<and> d \<noteq> no_change"
  let ?N = "aminrl_1 > 0.0000001 \<or> strucc_lyr / struce_lyr_1 \<le> rnew_lyr_1_1"
  let ?P = "aminrl_2 > 0.0000001 \<or> strucc_lyr / struce_lyr_2 \<le> rnew_lyr_2_1"
  have nz: "struce_lyr_1 \<noteq> 0 \<and> struce_lyr_2 \<noteq> 0"
    using ret by (cases "struce_lyr_1 = 0"; cases "struce_lyr_2 = 0")
      (simp_all add: declig_def decompose_mask_def)
  then have m: "decompose_mask aminrl_1 aminrl_2 strucc_lyr struce_lyr_1 struce_lyr_2
       rnew_lyr_1_1 rnew_lyr_2_1 = Inr (?N \<and> ?P)"
    by (simp add: decompose_mask_def)
  have both: "?N \<and> ?P"
  proof (rule ccontr)
    assume "\<not> (?N \<and> ?P)"
    with m have "decompose_mask aminrl_1 aminrl_2 strucc_lyr struce_lyr_1 struce_lyr_2
       rnew_lyr_1_1 rnew_lyr_2_1 = Inr False" by simp
    then have "declig aminrl_1 aminrl_2 ligcon rsplig ps1co2_lyr strucc_lyr tcflow
       struce_lyr_1 struce_lyr_2 rnew_lyr_1_1 rnew_lyr_2_1 rnew_lyr_1_2 rnew_lyr_2_2
       minerl_1_1 minerl_1_2 = Inr no_change"
      by (simp add: declig_def)
    with ret show False by auto
  qed
  from both show ?N ..
  from both show ?P ..
next
  show "declig 0 0 0.3779 0.0146 0.0883 155.5253 40.82 0.7776 0.3111 190 300 0 0 0 0
     = Inr no_change"
    by (rule declig_no_decomposition_scenario)
next
  show "map (\<lambda>return_type. declig_point return_type
          0 0 0.3779 0.0146 0.0883 155.5253 40.82 0.7776 0.3111 190 300 0 0 0 0)
       declig_return_types
     = replicate 12 (Inr (Some 0))"
    unfolding declig_point_def declig_no_decomposition_scenario bindE_Inr
    by (simp add: declig_select_def declig_return_types_def no_change_def eval_nat_numeral)
qed

text \<open>
  The second scenario of \<^verbatim>\<open>test_declig_point\<close> ("decomposition occurs, subsidized by
  mineral N and P"): the function returns, the deltas are not all zero, and the mask
  holds.
\<close>

theorem declig_decomposes_only_under_mask_witness:
  "\<not> isl (declig 6.4944 33.2791 0.3779 0.0146 0.0883 155.5253 40.82 0.7776 0.3111
            210.8 540.2 190.3 520.8 6.01 32.87) \<and>
   projr (declig 6.4944 33.2791 0.3779 0.0146 0.0883 155.5253 40.82 0.7776 0.3111
            210.8 540.2 190.3 520.8 6.01 32.87) \<noteq> no_change \<and>
   ((6.4944::real) > 0.0000001 \<or> 155.5253 / 0.7776 \<le> (210.8::real)) \<and>
   ((33.2791::real) > 0.0000001 \<or> 155.5253 / 0.3111 \<le> (540.2::real))"
proof -
  obtain d where d: "declig 6.4944 33.2791 0.3779 0.0146 0.0883 155.5253 40.82 0.7776 0.3111
            210.8 540.2 190.3 520.8 6.01 32.87 = Inr d"
    using declig_returns [of "155.5253" "0.7776" "0.3111" "210.8" "540.2" "190.3" "520.8"
        "40.82" "0.3779" "0.0146" "0.0883" "6.4944" "33.2791" "6.01" "32.87"]
    by auto
  have "decompose_mask 6.4944 33.2791 155.5253 0.7776 0.3111 210.8 540.2 = Inr True"
    by (simp add: decompose_mask_def)
  from declig_strucc [OF d this] have nc: "d \<noteq> no_change"
    by (auto simp: no_change_def)
  from declig_decomposes_only_under_mask [of "6.4944" "33.2791" "0.3779" "0.0146" "0.0883"
      "155.5253" "40.82" "0.7776" "0.3111" "210.8" "540.2" "190.3" "520.8" "6.01" "32.87" d]
    d nc
  show ?thesis by simp
qed

section \<open>Claims about \<^verbatim>\<open>calc_nutrient_limitation_point\<close>\<close>

text \<open>
  C3: whenever \<^verbatim>\<open>calc_nutrient_limitation_point\<close> returns (as it does for positive
  potential production, positive C/element ratios with each minimum at most its
  maximum, and non-negative root:shoot ratio and supplies, by \<open>cnl_returns\<close>), the
  returned \<^verbatim>\<open>c_production\<close> is the minimum of \<^verbatim>\<open>potenc\<close>, \<open>eavail_1 / cpbe_1\<close> and
  \<open>eavail_2 / cpbe_2\<close>, with \<open>cpbe\<close> the blend of E/C ratios that the claim describes;
  total N in new production after the cap exceeds \<open>eavail_1 + snfxmx_1 * c_production\<close>
  by at most \<open>0.05\<close>; and \<^verbatim>\<open>plantNfix\<close>, the capped total less \<open>eavail_1\<close> floored at zero,
  is not negative.
\<close>

theorem calc_nutrient_limitation_minimum:
  assumes "calc_nutrient_limitation_point potenc rtsh eavail_1 eavail_2 snfxmx_1
       cerat_max_above_1 cerat_max_below_1 cerat_max_above_2 cerat_max_below_2
       cerat_min_above_1 cerat_min_below_1 cerat_min_above_2 cerat_min_below_2 = Inr r"
  shows "c_production r =
       min potenc (min
         (eavail_1 / cpbe_spec potenc rtsh eavail_1 cerat_max_above_1 cerat_max_below_1
                       cerat_min_above_1 cerat_min_below_1)
         (eavail_2 / cpbe_spec potenc rtsh eavail_2 cerat_max_above_2 cerat_max_below_2
                       cerat_min_above_2 cerat_min_below_2)) \<and>
     capped_eprodl_1 (eup_above_1 r + eup_below_1 r) eavail_1 (snfxmx_1 * c_production r)
       - (eavail_1 + snfxmx_1 * c_production r) \<le> 0.05 \<and>
     plantNfix r =
       max (capped_eprodl_1 (eup_above_1 r + eup_below_1 r) eavail_1
              (snfxmx_1 * c_production r) - eavail_1) 0 \<and>
     plantNfix r \<ge> 0"
proof -
  from assms obtain e1 e2 where
    r: "r = limited_production potenc eavail_1 snfxmx_1 (rtsh / (rtsh + 1))
          (1 - rtsh / (rtsh + 1)) (fst e1) (snd e1) (fst e2) (snd e2)
          (eavail_1 / cpbe_spec potenc rtsh eavail_1 cerat_max_above_1 cerat_max_below_1
                        cerat_min_above_1 cerat_min_below_1)
          (eavail_2 / cpbe_spec potenc rtsh eavail_2 cerat_max_above_2 cerat_max_below_2
                        cerat_min_above_2 cerat_min_below_2)"
    by (rule cnl_InrE)
  have c: "c_production r =
       min potenc (min
         (eavail_1 / cpbe_spec potenc rtsh eavail_1 cerat_max_above_1 cerat_max_below_1
                       cerat_min_above_1 cerat_min_below_1)
         (eavail_2 / cpbe_spec potenc rtsh eavail_2 cerat_max_above_2 cerat_max_below_2
                       cerat_min_above_2 cerat_min_below_2))"
    unfolding r by (rule limited_production_c)
  have f: "plantNfix r =
       max (capped_eprodl_1 (eup_above_1 r + eup_below_1 r) eavail_1
              (snfxmx_1 * c_production r) - eavail_1) 0"
    using r by (rule limited_production_fix)
  have nonneg: "plantNfix r \<ge> 0"
    unfolding f by simp
  from c capped_eprodl_1_bound f nonneg show ?thesis by blast
qed

text \<open>The first scenario of \<^verbatim>\<open>test_calc_nutrient_limitation\<close>.\<close>

theorem calc_nutrient_limitation_minimum_witness:
  "\<not> isl (calc_nutrient_limitation_point 200.1 0.59 200.5 62 0.03 8 11 7 6 3 5 2 2.5) \<and>
   c_production (projr (calc_nutrient_limitation_point 200.1 0.59 200.5 62 0.03
                          8 11 7 6 3 5 2 2.5)) =
     min 200.1 (min (200.5 / cpbe_spec 200.1 0.59 200.5 8 11 3 5)
                    (62 / cpbe_spec 200.1 0.59 62 7 6 2 2.5)) \<and>
   plantNfix (projr (calc_nutrient_limitation_point 200.1 0.59 200.5 62 0.03
                       8 11 7 6 3 5 2 2.5)) \<ge> 0"
proof -
  obtain r where r: "calc_nutrient_limitation_point 200.1 0.59 200.5 62 0.03
      8 11 7 6 3 5 2 2.5 = Inr r"
    using cnl_returns [of "200.1" "0.59" "200.5" 62 3 8 5 11 2 7 "2.5" 6 "0.03"] by auto
  from calc_nutrient_limitation_minimum [OF r] r show ?thesis by simp
qed

section \<open>Claims about gross mineralization\<close>

text \<open>
  C4: \<^verbatim>\<open>update_gross_mineralization(g, flow)\<close> is \<open>g + flow\<close> when \<open>flow > 0\<close> and \<open>g\<close> when
  \<open>flow \<le> 0\<close>; hence the accumulator never decreases, whatever sequence of flows
  updates it. The respiration block of \<^verbatim>\<open>_declig\<close> (\<^verbatim>\<open>if mnrflo_1 > 0: d_gromin_1 += mnrflo_1\<close>)
  is this update of \<^verbatim>\<open>d_gromin_1\<close> by the N flow.
\<close>

theorem update_gross_mineralization_monotone:
  "(flow > 0 \<longrightarrow> update_gross_mineralization g flow = g + flow) \<and>
   (flow \<le> 0 \<longrightarrow> update_gross_mineralization g flow = g) \<and>
   g \<le> foldl update_gross_mineralization g flows \<and>
   (respiration_flows d co2los strucc_lyr struce_lyr_1 struce_lyr_2 = Inr d' \<longrightarrow>
      d_gromin_1 d' =
        update_gross_mineralization (d_gromin_1 d) (co2los * struce_lyr_1 / strucc_lyr))"
proof (intro conjI impI)
  show "g \<le> foldl update_gross_mineralization g flows"
  proof (induction flows arbitrary: g)
    case Nil
    show ?case by simp
  next
    case (Cons f fs)
    have "g \<le> update_gross_mineralization g f"
      by (simp add: update_gross_mineralization_def)
    also have "\<dots> \<le> foldl update_gross_mineralization (update_gross_mineralization g f) fs"
      by (rule Cons.IH)
    finally show ?case by simp
  qed
next
  assume "respiration_flows d co2los strucc_lyr struce_lyr_1 struce_lyr_2 = Inr d'"
  then show "d_gromin_1 d' =
      update_gross_mineralization (d_gromin_1 d) (co2los * struce_lyr_1 / strucc_lyr)"
    by (auto simp: respiration_flows_def update_gross_mineralization_def Let_def
        elim!: bindE_InrE py_div_InrE split: if_splits)
qed (simp_all add: update_gross_mineralization_def)

text \<open>The two cases of \<^verbatim>\<open>test_update_gross_mineralization\<close>, one after the other.\<close>

theorem update_gross_mineralization_monotone_witness:
  "update_gross_mineralization 0.0481 0.00044 = 0.0481 + 0.00044 \<and>
   update_gross_mineralization 0.048881 (- 0.00674) = 0.048881 \<and>
   (0.0481::real) \<le> foldl update_gross_mineralization 0.0481 [0.00044, - 0.00674]"
  using update_gross_mineralization_monotone [of "0.00044" "0.0481" "[0.00044, - 0.00674]"]
    update_gross_mineralization_monotone [of "- 0.00674" "0.048881" "[]"]
  by simp

section \<open>Claims about leaching\<close>

text \<open>
  C6: the leaching intensity is clamped to \<open>[0, 1]\<close>. For \<^verbatim>\<open>calc_c_leach\<close> with a positive
  threshold \<^verbatim>\<open>omlech_3\<close> the intensity exists and lies in \<open>[0, 1]\<close>, it is 0 at
  \<open>amov = 0\<close>, and for \<open>amov \<ge> 0\<close> leached C is \<open>tcflow * orglch * min (amov / omlech_3) 1\<close>,
  which gives the two values of \<^verbatim>\<open>test_calc_c_leach\<close>. For a layer of \<^verbatim>\<open>leach_point\<close>,
  whenever the intensity is computed it lies in \<open>[0, 1]\<close>, and with \<open>amov = 0\<close> it is 0
  and nothing leaves the layer.
\<close>

theorem leaching_intensity_clamped:
  "(omlech_3 > 0 \<longrightarrow>
      (\<exists>linten. c_leach_linten amov omlech_3 = Some linten \<and> 0 \<le> linten \<and> linten \<le> 1) \<and>
      c_leach_linten 0 omlech_3 = Some 0 \<and>
      (amov \<ge> 0 \<longrightarrow>
         calc_c_leach amov tcflow omlech_3 orglch
           = Some (tcflow * orglch * min (amov / omlech_3) 1))) \<and>
   calc_c_leach 63.1 40.38 60 0.07 = Some 2.8266 \<and>
   calc_c_leach 10.5 40.38 60 0.07 = Some 0.494655 \<and>
   (leach_linten minlch amov_lyr = Inr l \<longrightarrow> 0 \<le> l \<and> l \<le> 1) \<and>
   (minlch \<noteq> 0 \<longrightarrow> leach_linten minlch 0 = Inr 0 \<and> leach_amount frlech minerl minlch 0 = Inr 0)"
proof (intro conjI impI)
  assume pos: "omlech_3 > 0"
  then show "\<exists>linten. c_leach_linten amov omlech_3 = Some linten \<and> 0 \<le> linten \<and> linten \<le> 1"
    by (simp add: c_leach_linten_def np_clip_def)
  from pos show "c_leach_linten 0 omlech_3 = Some 0"
    by (simp add: c_leach_linten_def np_clip_def)
  assume "amov \<ge> 0"
  with pos have "0 \<le> amov / omlech_3"
    by simp
  then have "max (amov / omlech_3) 0 = amov / omlech_3"
    by (rule max_absorb1)
  with pos show "calc_c_leach amov tcflow omlech_3 orglch
      = Some (tcflow * orglch * min (amov / omlech_3) 1)"
    by (simp add: calc_c_leach_def c_leach_linten_def np_clip_def)
next
  show "calc_c_leach 63.1 40.38 60 0.07 = Some 2.8266"
    by (simp add: calc_c_leach_def c_leach_linten_def np_clip_def)
  show "calc_c_leach 10.5 40.38 60 0.07 = Some 0.494655"
    by (simp add: calc_c_leach_def c_leach_linten_def np_clip_def)
next
  assume "leach_linten minlch amov_lyr = Inr l"
  then have l: "l = np_clip (1 - (minlch - amov_lyr) / minlch) 0 1"
    by (auto simp: leach_linten_def elim!: bindE_InrE py_div_InrE)
  show "0 \<le> l" unfolding l by (simp add: np_clip_def)
  show "l \<le> 1" unfolding l by (simp add: np_clip_def)
next
  assume nz: "minlch \<noteq> 0"
  then show z: "leach_linten minlch 0 = Inr 0"
    by (simp add: leach_linten_def np_clip_def)
  show "leach_amount frlech minerl minlch 0 = Inr 0"
    unfolding leach_amount_def z by simp
qed

text \<open>
  The "linten > 1" case of \<^verbatim>\<open>test_calc_c_leach\<close>, and the second layer of the first
  scenario of \<^verbatim>\<open>test_leaching\<close> (\<^verbatim>\<open>minlch = 18\<close>, \<^verbatim>\<open>amov_2 = 10\<close>).
\<close>

theorem leaching_intensity_clamped_witness:
  "(60::real) > 0 \<and> (63.1::real) \<ge> 0 \<and>
   c_leach_linten 63.1 60 = Some 1 \<and>
   c_leach_linten 0 60 = Some 0 \<and>
   calc_c_leach 63.1 40.38 60 0.07 = Some (40.38 * 0.07 * min (63.1 / 60) 1) \<and>
   leach_linten 18 10 = Inr (5 / 9) \<and> (0::real) \<le> 5 / 9 \<and> (5 / 9 :: real) \<le> 1 \<and>
   leach_linten 18 0 = Inr 0 \<and> leach_amount 0.53 10 18 0 = Inr 0"
proof -
  have a: "c_leach_linten 63.1 60 = Some 1"
    by (simp add: c_leach_linten_def np_clip_def)
  have b: "leach_linten 18 10 = Inr (5 / 9)"
    by (simp add: leach_linten_def np_clip_def)
  from leaching_intensity_clamped [of 60 "63.1" "40.38" "0.07" 18 10 "5 / 9" "0.53" 10] a b
  show ?thesis by simp
qed

section \<open>Claims about potential transpiration\<close>

text \<open>
  C7, as stated: for every input with \<open>tave < 2\<close> the transpiration demand is zero, and
  the demand is pre-satisfied by \<open>min (demand - 0.01) current_moisture_inputs\<close>. In a
  cold month with the other inputs of the first scenario of
  \<^verbatim>\<open>test_potential_transpiration\<close> the demand is not zero: the source replaces a demand
  that is not positive by \<open>0.01\<close> (\<^verbatim>\<open>if trap <= 0: trap = 0.01\<close>), the function returns
  \<^verbatim>\<open>trap = 0.01\<close>, and the surface input \<open>7.4\<close> is returned unchanged, where a demand of
  zero would take \<open>min (0 - 0.01) 7.4 = - 0.01\<close> from it.
\<close>

theorem potential_transpiration_demand_counterexample:
  "(1.5::real) < 2 \<and>
   transpiration_demand 13.2 5.28 1.5 100 \<noteq> 0 \<and>
   trap (potential_transpiration_point 13.2 5.28 1.5 100 7.4) = 0.01 \<and>
   modified_moisture_inputs (potential_transpiration_point 13.2 5.28 1.5 100 7.4) = 7.4"
  by (simp add: transpiration_demand_def pttr_def potential_transpiration_point_def Let_def)

text \<open>
  C7, amended: for every input with \<open>tave < 2\<close> the potential transpiration \<^verbatim>\<open>pttr\<close>, the
  value computed from remaining PET and live biomass, is zero, and the transpiration
  demand is the floor \<open>0.01\<close>, not zero; the function then returns
  \<open>0.01 - min 0 current_moisture_inputs\<close> as \<^verbatim>\<open>trap\<close>. In general the transpiration
  demand (\<^verbatim>\<open>trap\<close> before the surface input is taken into account: the smaller of
  \<^verbatim>\<open>pttr\<close> and \<open>pet_rem - evap_losses\<close>, replaced by \<open>0.01\<close> when not positive) is
  pre-satisfied by \<open>tran = min (demand - 0.01) current_moisture_inputs\<close>: the function
  returns \<open>demand - tran\<close> as \<^verbatim>\<open>trap\<close> and \<open>current_moisture_inputs - tran\<close> as
  \<^verbatim>\<open>modified_moisture_inputs\<close>.
\<close>

theorem potential_transpiration_presatisfied:
  "(tave < 2 \<longrightarrow>
      pttr pet_rem tave aliv = 0 \<and>
      transpiration_demand pet_rem evap_losses tave aliv = 0.01 \<and>
      trap (potential_transpiration_point pet_rem evap_losses tave aliv
              current_moisture_inputs) = 0.01 - min 0 current_moisture_inputs) \<and>
   transpiration_demand pet_rem evap_losses tave aliv =
     (let least = min (pttr pet_rem tave aliv) (pet_rem - evap_losses)
      in if least \<le> 0 then 0.01 else least) \<and>
   (let demand = transpiration_demand pet_rem evap_losses tave aliv;
        tran = min (demand - 0.01) current_moisture_inputs;
        result = potential_transpiration_point pet_rem evap_losses tave aliv
                   current_moisture_inputs
    in trap result = demand - tran \<and>
       modified_moisture_inputs result = current_moisture_inputs - tran)"
  by (simp add: pttr_def transpiration_demand_def potential_transpiration_point_def Let_def
      min_def)

text \<open>
  Another cold month: \<^verbatim>\<open>pttr\<close> is zero, the demand is \<open>0.01\<close>, nothing is pre-satisfied,
  and the surface input is unchanged.
\<close>

theorem potential_transpiration_presatisfied_witness:
  "(- 3.4::real) < 2 \<and> pttr 4.1 (- 3.4) 80 = 0 \<and>
   transpiration_demand 4.1 1.2 (- 3.4) 80 = 0.01 \<and>
   trap (potential_transpiration_point 4.1 1.2 (- 3.4) 80 2.6) = 0.01 \<and>
   modified_moisture_inputs (potential_transpiration_point 4.1 1.2 (- 3.4) 80 2.6) = 2.6"
proof -
  have cold: "(- 3.4::real) < 2" by simp
  from potential_transpiration_presatisfied [of "- 3.4" "4.1" 80 "1.2" "2.6"] cold
  show ?thesis by (simp add: Let_def)
qed

section \<open>Claims about the decomposition factor\<close>

text \<open>
  C5, as stated: for every physical input the decomposition factor lies in \<open>[0, 1]\<close>.
  The source floors \<^verbatim>\<open>defac\<close> at 0 and has no upper clamp; the temperature term
  \<^verbatim>\<open>tfunc\<close> is normalised to its value at 30 degrees and grows with soil temperature.
  For a snow-free month with minimum temperature 28 and maximum temperature 38
  degrees (soil temperature 33), a ratio of water to reference evapotranspiration of
  10 (so that \<^verbatim>\<open>agwfunc\<close> is 1, by the branch \<^verbatim>\<open>rprpet > 9\<close>) and the temperature
  parameters \<open>15.4, 11.75, 29.7, 0.031\<close>, the factor is above 1.
\<close>

theorem defac_above_one_counterexample:
  "defac_point 0 28 38 10 15.4 11.75 29.7 0.031 \<noteq> None \<and>
   the (defac_point 0 28 38 10 15.4 11.75 29.7 0.031) > 1"
  using defac_exceeds_one [of "11.75" "29.7" "0.031" "15.4" 0 28 38 10]
  by auto

text \<open>
  C5, amended: every decomposition factor that \<^verbatim>\<open>defac_point\<close> returns is at least 0;
  and when the soil temperature (0 under snow, otherwise the mean of minimum and
  maximum temperature) is at most 30 degrees, with \<open>teff_2 > 0\<close>, \<open>teff_3 \<ge> 0\<close>,
  \<open>teff_4 \<ge> 0\<close> and \<open>teff_1 \<le> 30\<close>, a factor is returned and lies in \<open>[0, 1]\<close>.
\<close>

theorem defac_in_unit_interval:
  "(defac_point snow min_temp max_temp rprpet teff_1 teff_2 teff_3 teff_4 = Some defac
      \<longrightarrow> 0 \<le> defac) \<and>
   (teff_2 > 0 \<and> teff_3 \<ge> 0 \<and> teff_4 \<ge> 0 \<and> teff_1 \<le> 30 \<and>
    (snow > 0 \<or> (min_temp + max_temp) / 2 \<le> 30) \<longrightarrow>
      (\<exists>d. defac_point snow min_temp max_temp rprpet teff_1 teff_2 teff_3 teff_4 = Some d
           \<and> 0 \<le> d \<and> d \<le> 1))"
  using defac_nonneg [of snow min_temp max_temp rprpet teff_1 teff_2 teff_3 teff_4 defac]
    defac_bounded [of teff_2 teff_3 teff_4 teff_1 snow min_temp max_temp rprpet]
  by blast

text \<open>A snow-free month between 10 and 25 degrees with the same parameters.\<close>

theorem defac_in_unit_interval_witness:
  "defac_point 0 10 25 0.8 15.4 11.75 29.7 0.031 \<noteq> None \<and>
   0 \<le> the (defac_point 0 10 25 0.8 15.4 11.75 29.7 0.031) \<and>
   the (defac_point 0 10 25 0.8 15.4 11.75 29.7 0.031) \<le> 1"
proof -
  have "(11.75::real) > 0 \<and> (29.7::real) \<ge> 0 \<and> (0.031::real) \<ge> 0 \<and> (15.4::real) \<le> 30 \<and>
      ((0::real) > 0 \<or> (10 + 25) / 2 \<le> (30::real))"
    by simp
  with defac_in_unit_interval [of 0 10 25 "0.8" "15.4" "11.75" "29.7" "0.031"]
  obtain d where "defac_point 0 10 25 0.8 15.4 11.75 29.7 0.031 = Some d" "0 \<le> d" "d \<le> 1"
    by blast
  then show ?thesis by simp
qed

section \<open>Claims about RouteDEM\<close>

text \<open>
  C8: let \<^verbatim>\<open>args\<close> hold strings under the required keys \<^verbatim>\<open>workspace_dir\<close> and
  \<^verbatim>\<open>dem_path\<close> and a string under \<^verbatim>\<open>algorithm\<close>. If the upper-cased string is neither \<^verbatim>\<open>D8\<close> nor \<^verbatim>\<open>MFD\<close>, then
  \<^verbatim>\<open>execute\<close> raises the \<^verbatim>\<open>RuntimeError\<close> whose message names the string as given and
  lists the choices \<^verbatim>\<open>D8, MFD\<close>, and up to then it has only made the directories and
  read the raster information: no task graph exists and no task is scheduled. If the
  upper-cased string is \<^verbatim>\<open>D8\<close> or \<^verbatim>\<open>MFD\<close>, \<^verbatim>\<open>execute\<close> raises no \<^verbatim>\<open>RuntimeError\<close>.
\<close>

theorem execute_checks_algorithm_first:
  assumes "args ''workspace_dir'' = Some (Str w)" "args ''dem_path'' = Some (Str p)"
    and "args ''algorithm'' = Some (Str given)"
  shows "(py_upper given \<noteq> ''D8'' \<and> py_upper given \<noteq> ''MFD'' \<longrightarrow>
      raised (execute parse_float n_bands args) =
        Some (RuntimeError
          (''Invalid algorithm specified ('' @ given @ ''). Must be one of D8, MFD'')) \<and>
      events (execute parse_float n_bands args) =
        [MakeDirectories, GetRasterInfo] @ (if n_bands > 1 then [LogWarning] else []) \<and>
      filter is_scheduling (events (execute parse_float n_bands args)) = []) \<and>
   (py_upper given = ''D8'' \<or> py_upper given = ''MFD'' \<longrightarrow>
      (\<forall>msg. raised (execute parse_float n_bands args) \<noteq> Some (RuntimeError msg)))"
proof (intro conjI impI allI)
  assume bad: "py_upper given \<noteq> ''D8'' \<and> py_upper given \<noteq> ''MFD''"
  with assms have ex: "execute parse_float n_bands args =
     \<lparr>events = [MakeDirectories, GetRasterInfo] @ (if n_bands > 1 then [LogWarning] else []),
      raised = Some (RuntimeError
        (''Invalid algorithm specified ('' @ given @ ''). Must be one of D8, MFD''))\<rparr>"
    by (intro execute_invalid) simp_all
  show "raised (execute parse_float n_bands args) =
        Some (RuntimeError
          (''Invalid algorithm specified ('' @ given @ ''). Must be one of D8, MFD''))"
    unfolding ex by simp
  show "events (execute parse_float n_bands args) =
        [MakeDirectories, GetRasterInfo] @ (if n_bands > 1 then [LogWarning] else [])"
    unfolding ex by simp
  show "filter is_scheduling (events (execute parse_float n_bands args)) = []"
    unfolding ex by simp
next
  fix msg
  assume "py_upper given = ''D8'' \<or> py_upper given = ''MFD''"
  with assms(3) show "raised (execute parse_float n_bands args) \<noteq> Some (RuntimeError msg)"
    by (rule execute_valid)
qed

text \<open>
  The algorithm \<^verbatim>\<open>dinf\<close> is rejected before anything is scheduled; \<^verbatim>\<open>mfd\<close> in lower
  case is accepted.
\<close>

theorem execute_checks_algorithm_first_witness:
  "raised (execute (\<lambda>s. None) 1
      [''workspace_dir'' \<mapsto> Str ''ws'', ''dem_path'' \<mapsto> Str ''dem.tif'',
       ''algorithm'' \<mapsto> Str ''dinf'']) =
     Some (RuntimeError ''Invalid algorithm specified (dinf). Must be one of D8, MFD'') \<and>
   events (execute (\<lambda>s. None) 1
      [''workspace_dir'' \<mapsto> Str ''ws'', ''dem_path'' \<mapsto> Str ''dem.tif'',
       ''algorithm'' \<mapsto> Str ''dinf'']) = [MakeDirectories, GetRasterInfo] \<and>
   (\<forall>msg. raised (execute (\<lambda>s. None) 1
      [''workspace_dir'' \<mapsto> Str ''ws'', ''dem_path'' \<mapsto> Str ''dem.tif'',
       ''algorithm'' \<mapsto> Str ''mfd'']) \<noteq> Some (RuntimeError msg))"
proof -
  have up: "py_upper ''dinf'' \<noteq> ''D8''" "py_upper ''dinf'' \<noteq> ''MFD''"
    "py_upper ''mfd'' = ''MFD''"
    by code_simp+
  from execute_checks_algorithm_first
    [of "[''workspace_dir'' \<mapsto> Str ''ws'', ''dem_path'' \<mapsto> Str ''dem.tif'',
          ''algorithm'' \<mapsto> Str ''dinf'']" "''ws''" "''dem.tif''" "''dinf''"
        "\<lambda>s. None" 1]
    execute_checks_algorithm_first
    [of "[''workspace_dir'' \<mapsto> Str ''ws'', ''dem_path'' \<mapsto> Str ''dem.tif'',
          ''algorithm'' \<mapsto> Str ''mfd'']" "''ws''" "''dem.tif''" "''mfd''"
        "\<lambda>s. None" 1]
    up
  show ?thesis by simp
qed

end
